theory Spec2Isabelle
  imports Main
begin

section \<open>The VideoChat component of GuffGaff-client (src/Home/VideoChat.tsx)\<close>

text \<open>
  The component is a React function component. Its data lives in three places, and the
  model keeps them apart because the source reads them differently:
  \<^item> refs (\<open>peerConnectionRef\<close>, \<open>isNegotiatingRef\<close>, \<open>makingOfferRef\<close>,
    \<open>reconnectTimeoutRef\<close>, \<open>socketRef\<close>): mutable cells, always read live;
  \<^item> React state (\<open>streams\<close>, \<open>connectionState\<close>, \<open>controls\<close>, \<open>stats\<close>):
    written through functional updaters \<open>prev => ...\<close>, which see the live value;
  \<^item> the values a callback reads as \<open>connectionState.isInitiator\<close>,
    \<open>connectionState.reconnectAttempts\<close> and \<open>streams.localStream\<close>: these are the
    constants of the render that created the callback. They are modelled by a record
    \<open>env\<close> that every closure carries. A socket handler carries the \<open>env\<close> of the
    \<open>initializeSocket\<close> call that registered it; the callbacks of a peer connection
    carry the \<open>env\<close> of the \<open>createPeerConnection\<close> call that built it.

  Objects with identity (peer connections, sockets, timers, media tracks) live in heaps
  indexed by natural numbers. Calls into the browser that can reject or throw take their
  outcome as an argument, so that both the success and the failure path of every
  \<open>try\<close>/\<open>catch\<close> is a branch of the model. Where a browser call succeeds, the model
  records the effect the WebRTC API documents for it (the description that was set and
  the resulting signaling state); nothing else about the browser is assumed.

  An async handler runs as one step, with the outcomes of its awaited calls given, except
  \<open>pc.onnegotiationneeded\<close>, whose \<open>await\<close> is a step boundary because its flags
  exist to be seen by other handlers in between. Not modelled: the DOM refs of the two
  video elements, console output, the unmount cleanup of the mount effect, and the Chat
  component.
\<close>

subsection \<open>Data\<close>

type_synonym description = string
type_synonym candidate = string
type_synonym media_stream = "nat list"

datatype track_kind = Audio | Video

record track =
  kind :: track_kind
  enabled :: bool
  ended :: bool

datatype signaling_state =
  Stable | HaveLocalOffer | HaveRemoteOffer | HaveLocalPranswer | HaveRemotePranswer | SigClosed

datatype ice_state =
  IceNew | IceChecking | IceConnected | IceCompleted | IceFailed | IceDisconnected | IceClosed

text \<open>What a closure captured from its render.\<close>

record env =
  cap_isInitiator :: bool
  cap_reconnectAttempts :: nat
  cap_localStream :: "media_stream option"

record peer_connection =
  pc_env :: env
  signalingState :: signaling_state
  iceConnectionState :: ice_state
  localDescription :: "description option"
  remoteDescription :: "description option"
  senders :: "nat list"
  remoteCandidates :: "candidate list"
  pc_closed :: bool

record socket =
  sock_connected :: bool
  sock_env :: env

text \<open>A timer made by \<open>setTimeout(() => findPartner(), d)\<close>; the callback is the
  \<open>findPartner\<close> of the render captured in \<open>timer_env\<close>.\<close>

record timer =
  delay :: nat
  timer_env :: env
  timer_cleared :: bool
  timer_fired :: bool

record VideoStreamState =
  localStream :: "media_stream option"
  remoteStream :: "nat option"

record ConnectionState =
  isConnected :: bool
  isWaiting :: bool
  error :: "string option"
  status :: string
  isInitiator :: bool
  reconnectAttempts :: nat

record Controls =
  isMuted :: bool
  isVideoOff :: bool

record Stats =
  totalUsers :: int
  waitingUsers :: int
  activePartnerships :: int

text \<open>What the component sends over a socket with \<open>emit\<close>.\<close>

datatype emit =
  EmitOffer nat "description option"
  | EmitAnswer string description
  | EmitIceCandidate nat candidate
  | EmitFindMatch

record vc =
  pcs :: "peer_connection list"
  peerConnectionRef :: "nat option"
  isNegotiatingRef :: bool
  makingOfferRef :: bool
  reconnectTimeoutRef :: "nat option"
  timers :: "timer list"
  sockets :: "socket list"
  socketRef :: "nat option"
  streams :: VideoStreamState
  connectionState :: ConnectionState
  controls :: Controls
  stats :: Stats
  tracks :: "nat \<Rightarrow> track option"
  next_track :: nat
  emitted :: "(nat \<times> emit) list"
  suspended :: "nat list"

definition MAX_RECONNECT_ATTEMPTS :: nat where
  "MAX_RECONNECT_ATTEMPTS = 3"

definition RECONNECT_DELAY :: nat where
  "RECONNECT_DELAY = 2000"

subsection \<open>State setters and small helpers\<close>

definition setConnectionState :: "(ConnectionState \<Rightarrow> ConnectionState) \<Rightarrow> vc \<Rightarrow> vc" where
  "setConnectionState f s = s\<lparr>connectionState := f (connectionState s)\<rparr>"

definition setStreams :: "(VideoStreamState \<Rightarrow> VideoStreamState) \<Rightarrow> vc \<Rightarrow> vc" where
  "setStreams f s = s\<lparr>streams := f (streams s)\<rparr>"

definition setControls :: "(Controls \<Rightarrow> Controls) \<Rightarrow> vc \<Rightarrow> vc" where
  "setControls f s = s\<lparr>controls := f (controls s)\<rparr>"

definition upd_pc :: "nat \<Rightarrow> (peer_connection \<Rightarrow> peer_connection) \<Rightarrow> vc \<Rightarrow> vc" where
  "upd_pc p f s = s\<lparr>pcs := (pcs s)[p := f (pcs s ! p)]\<rparr>"

definition emit_on :: "nat \<Rightarrow> emit \<Rightarrow> vc \<Rightarrow> vc" where
  "emit_on k e s = s\<lparr>emitted := emitted s @ [(k, e)]\<rparr>"

text \<open>\<open>socketRef.current?.connected\<close>\<close>

definition socket_connected :: "vc \<Rightarrow> bool" where
  "socket_connected s =
     (case socketRef s of None \<Rightarrow> False
      | Some k \<Rightarrow> k < length (sockets s) \<and> sock_connected (sockets s ! k))"

text \<open>The values a closure created by the current render would capture.\<close>

definition live_env :: "vc \<Rightarrow> env" where
  "live_env s =
     \<lparr>cap_isInitiator = isInitiator (connectionState s),
      cap_reconnectAttempts = reconnectAttempts (connectionState s),
      cap_localStream = localStream (streams s)\<rparr>"

text \<open>\<open>pc.close()\<close>\<close>

definition close_pc :: "peer_connection \<Rightarrow> peer_connection" where
  "close_pc pc = pc\<lparr>signalingState := SigClosed, iceConnectionState := IceClosed, pc_closed := True\<rparr>"

subsection \<open>cleanupPeerConnection, handleDisconnect, createPeerConnection\<close>

definition cleanupPeerConnection :: "vc \<Rightarrow> vc" where
  "cleanupPeerConnection s =
     setStreams (\<lambda>prev. prev\<lparr>remoteStream := None\<rparr>)
       (case peerConnectionRef s of
          None \<Rightarrow> s
        | Some i \<Rightarrow> (upd_pc i close_pc s)\<lparr>peerConnectionRef := None\<rparr>)"

definition handleDisconnect :: "vc \<Rightarrow> vc" where
  "handleDisconnect s =
     setConnectionState
       (\<lambda>prev. prev\<lparr>isConnected := False, isWaiting := False,
                     status := ''Disconnected'', isInitiator := False\<rparr>)
       (cleanupPeerConnection s)"

text \<open>The object \<open>new RTCPeerConnection(...)\<close> returns, after the \<open>addTrack\<close> loop over
  the tracks of the captured \<open>streams.localStream\<close>.\<close>

definition new_pc :: "env \<Rightarrow> peer_connection" where
  "new_pc e =
     \<lparr>pc_env = e, signalingState = Stable, iceConnectionState = IceNew,
      localDescription = None, remoteDescription = None,
      senders = (case cap_localStream e of None \<Rightarrow> [] | Some st \<Rightarrow> st),
      remoteCandidates = [], pc_closed = False\<rparr>"

text \<open>\<open>createPeerConnection\<close> of the render \<open>e\<close>. \<open>ok\<close> is whether the constructor
  returns (it throws on an unsupported configuration); the result is the new state and
  the handle returned (\<open>null\<close> from the \<open>catch\<close>).\<close>

definition createPeerConnection :: "env \<Rightarrow> bool \<Rightarrow> vc \<Rightarrow> vc \<times> nat option" where
  "createPeerConnection e ok s =
     (let s1 = cleanupPeerConnection s in
      if ok then
        (s1\<lparr>pcs := pcs s1 @ [new_pc e], peerConnectionRef := Some (length (pcs s1))\<rparr>,
         Some (length (pcs s1)))
      else
        (setConnectionState (\<lambda>prev. prev\<lparr>error := Some ''Failed to create peer connection''\<rparr>) s1,
         None))"

subsection \<open>The callbacks of a peer connection\<close>

text \<open>\<open>pc.onnegotiationneeded\<close> is an async function with one \<open>await\<close>, so it runs in
  two steps. The first runs up to \<open>await pc.setLocalDescription()\<close>; an early
  \<open>return\<close> inside the \<open>try\<close> still runs the \<open>finally\<close> block. The handler that
  reaches the \<open>await\<close> is recorded in \<open>suspended\<close>.\<close>

definition negotiation_finally :: "vc \<Rightarrow> vc" where
  "negotiation_finally s = s\<lparr>makingOfferRef := False, isNegotiatingRef := False\<rparr>"

definition onnegotiationneeded :: "nat \<Rightarrow> vc \<Rightarrow> vc" where
  "onnegotiationneeded p s =
     (if isNegotiatingRef s \<or> \<not> cap_isInitiator (pc_env (pcs s ! p))
      then negotiation_finally s
      else s\<lparr>isNegotiatingRef := True, makingOfferRef := True, suspended := suspended s @ [p]\<rparr>)"

text \<open>\<open>pc.setLocalDescription()\<close> with no argument makes an answer when the signaling
  state is have-remote-offer or have-local-pranswer, and an offer otherwise.\<close>

definition implicit_local :: "description \<Rightarrow> peer_connection \<Rightarrow> peer_connection" where
  "implicit_local d pc =
     pc\<lparr>localDescription := Some d,
        signalingState :=
          (if signalingState pc = HaveRemoteOffer \<or> signalingState pc = HaveLocalPranswer
           then Stable else HaveLocalOffer)\<rparr>"

text \<open>The second step: the \<open>await\<close> settles with \<open>Some d\<close> (the description now set) or
  \<open>None\<close> (rejected).\<close>

definition negotiation_resume :: "nat \<Rightarrow> description option \<Rightarrow> vc \<Rightarrow> vc" where
  "negotiation_resume p r s =
     negotiation_finally
       (case r of
          None \<Rightarrow>
            setConnectionState (\<lambda>prev. prev\<lparr>error := Some ''Connection negotiation failed''\<rparr>) s
        | Some d \<Rightarrow>
            (let s1 = upd_pc p (implicit_local d) s in
             case socketRef s1 of
               None \<Rightarrow> s1
             | Some k \<Rightarrow> emit_on k (EmitOffer k (localDescription (pcs s1 ! p))) s1))"

definition ontrack :: "nat option \<Rightarrow> vc \<Rightarrow> vc" where
  "ontrack ev s =
     (case ev of
        None \<Rightarrow> s
      | Some rs \<Rightarrow>
          setConnectionState
            (\<lambda>prev. prev\<lparr>isConnected := True, status := ''Connected to partner'', error := None\<rparr>)
            (setStreams (\<lambda>prev. prev\<lparr>remoteStream := Some rs\<rparr>) s))"

definition onicecandidate :: "candidate option \<Rightarrow> vc \<Rightarrow> vc" where
  "onicecandidate c s =
     (case c of
        None \<Rightarrow> s
      | Some cand \<Rightarrow>
          (if socket_connected s
           then (case socketRef s of None \<Rightarrow> s
                 | Some k \<Rightarrow> emit_on k (EmitIceCandidate k cand) s)
           else s))"

text \<open>\<open>setTimeout(() => findPartner(), RECONNECT_DELAY)\<close>, after \<open>clearTimeout\<close> of the
  timer the ref held.\<close>

definition clearTimeout :: "nat \<Rightarrow> vc \<Rightarrow> vc" where
  "clearTimeout t s = s\<lparr>timers := (timers s)[t := (timers s ! t)\<lparr>timer_cleared := True\<rparr>]\<rparr>"

definition schedule_reconnect :: "env \<Rightarrow> vc \<Rightarrow> vc" where
  "schedule_reconnect e s =
     (let s1 = (case reconnectTimeoutRef s of None \<Rightarrow> s | Some t \<Rightarrow> clearTimeout t s) in
      s1\<lparr>timers := timers s1 @
             [\<lparr>delay = RECONNECT_DELAY, timer_env = e, timer_cleared = False, timer_fired = False\<rparr>],
         reconnectTimeoutRef := Some (length (timers s1))\<rparr>)"

definition oniceconnectionstatechange :: "nat \<Rightarrow> vc \<Rightarrow> vc" where
  "oniceconnectionstatechange p s =
     (let pc = pcs s ! p in
      case iceConnectionState pc of
        IceFailed \<Rightarrow>
          (if cap_reconnectAttempts (pc_env pc) < MAX_RECONNECT_ATTEMPTS
           then schedule_reconnect (pc_env pc)
                  (setConnectionState
                     (\<lambda>prev. prev\<lparr>reconnectAttempts := reconnectAttempts prev + 1,
                                   status := ''Connection failed. Attempting to reconnect...''\<rparr>) s)
           else setConnectionState
                  (\<lambda>prev. prev\<lparr>error := Some ''Connection failed after multiple attempts''\<rparr>)
                  (handleDisconnect s))
      | IceDisconnected \<Rightarrow>
          setConnectionState
            (\<lambda>prev. prev\<lparr>status := ''Connection interrupted. Attempting to restore...''\<rparr>) s
      | IceConnected \<Rightarrow>
          setConnectionState
            (\<lambda>prev. prev\<lparr>reconnectAttempts := 0, error := None,
                          status := ''Connected to partner''\<rparr>) s
      | _ \<Rightarrow> s)"

subsection \<open>The socket and its handlers\<close>

definition initializeSocket :: "env \<Rightarrow> vc \<Rightarrow> vc" where
  "initializeSocket e s =
     (if socket_connected s then s
      else s\<lparr>sockets := sockets s @ [\<lparr>sock_connected = False, sock_env = e\<rparr>],
             socketRef := Some (length (sockets s))\<rparr>)"

definition on_connect_error :: "string \<Rightarrow> vc \<Rightarrow> vc" where
  "on_connect_error msg s =
     setConnectionState (\<lambda>prev. prev\<lparr>error := Some (''Connection error: '' @ msg)\<rparr>) s"

definition on_connect :: "vc \<Rightarrow> vc" where
  "on_connect s =
     setConnectionState (\<lambda>prev. prev\<lparr>error := None, status := ''Connected to server''\<rparr>) s"

definition on_match :: "env \<Rightarrow> bool \<Rightarrow> vc \<Rightarrow> vc" where
  "on_match e ok s =
     fst (createPeerConnection e ok
       (setConnectionState
          (\<lambda>prev. prev\<lparr>isInitiator := True, isWaiting := False,
                        status := ''Partner found! Establishing connection...''\<rparr>) s))"

text \<open>What the browser may answer to the three awaited calls of the \<open>offer\<close> handler, and
  whether the constructor returns should the handler have to build a connection.\<close>

record offer_outcome =
  construct_ok :: bool
  setRemote_ok :: bool
  createAnswer_res :: "description option"
  setLocal_ok :: bool

definition offerCollision :: "env \<Rightarrow> nat \<Rightarrow> vc \<Rightarrow> bool" where
  "offerCollision e i s =
     (makingOfferRef s \<or> (signalingState (pcs s ! i) \<noteq> Stable \<and> \<not> cap_isInitiator e))"

text \<open>The handler registered on socket \<open>k\<close> by the render \<open>e\<close>; the answer is emitted on
  that socket (the \<open>socket\<close> of the closure), not on \<open>socketRef.current\<close>.\<close>

definition on_offer :: "nat \<Rightarrow> env \<Rightarrow> string \<Rightarrow> description \<Rightarrow> offer_outcome \<Rightarrow> vc \<Rightarrow> vc" where
  "on_offer k e peerId offer oc s =
     (let (s1, pc) = (case peerConnectionRef s of
                        Some i \<Rightarrow> (s, Some i)
                      | None \<Rightarrow> createPeerConnection e (construct_ok oc) s) in
      case pc of
        None \<Rightarrow> s1
      | Some i \<Rightarrow>
          if offerCollision e i s1 then s1
          else if \<not> setRemote_ok oc then handleDisconnect s1
          else
            (let s2 = upd_pc i (\<lambda>pc. pc\<lparr>remoteDescription := Some offer,
                                        signalingState := HaveRemoteOffer\<rparr>) s1 in
             case createAnswer_res oc of
               None \<Rightarrow> handleDisconnect s2
             | Some answer \<Rightarrow>
                 if \<not> setLocal_ok oc then handleDisconnect s2
                 else emit_on k (EmitAnswer peerId answer)
                        (upd_pc i (\<lambda>pc. pc\<lparr>localDescription := Some answer,
                                           signalingState := Stable\<rparr>) s2)))"

definition on_answer :: "description \<Rightarrow> bool \<Rightarrow> vc \<Rightarrow> vc" where
  "on_answer answer ok s =
     (case peerConnectionRef s of
        None \<Rightarrow> s
      | Some i \<Rightarrow>
          if ok then upd_pc i (\<lambda>pc. pc\<lparr>remoteDescription := Some answer,
                                      signalingState := Stable\<rparr>) s
          else handleDisconnect s)"

definition on_ice_candidate :: "candidate \<Rightarrow> bool \<Rightarrow> vc \<Rightarrow> vc" where
  "on_ice_candidate c ok s =
     (case peerConnectionRef s of
        None \<Rightarrow> s
      | Some i \<Rightarrow>
          if remoteDescription (pcs s ! i) = None then s
          else if ok then upd_pc i (\<lambda>pc. pc\<lparr>remoteCandidates := remoteCandidates pc @ [c]\<rparr>) s
          else s)"

definition on_partner_left :: "vc \<Rightarrow> vc" where
  "on_partner_left s =
     setConnectionState (\<lambda>prev. prev\<lparr>status := ''Partner left. You can find a new partner.''\<rparr>)
       (handleDisconnect s)"

definition on_waiting :: "vc \<Rightarrow> vc" where
  "on_waiting s =
     setConnectionState (\<lambda>prev. prev\<lparr>isWaiting := True, status := ''Waiting for a partner...''\<rparr>) s"

definition on_stats_update :: "Stats \<Rightarrow> vc \<Rightarrow> vc" where
  "on_stats_update st s = s\<lparr>stats := st\<rparr>"

subsection \<open>Media, find-partner and the toggles\<close>

text \<open>\<open>initializeMedia\<close>: \<open>getUserMedia\<close> resolves with a stream of fresh live tracks
  (\<open>Inr\<close>, the kinds of its tracks) or rejects (\<open>Inl\<close>, the message).\<close>

fun alloc_tracks :: "track_kind list \<Rightarrow> nat \<Rightarrow> (nat \<Rightarrow> track option) \<Rightarrow> (nat \<Rightarrow> track option)" where
  "alloc_tracks [] n h = h"
| "alloc_tracks (k # ks) n h =
     alloc_tracks ks (Suc n) (h(n \<mapsto> \<lparr>kind = k, enabled = True, ended = False\<rparr>))"

definition initializeMedia :: "string + track_kind list \<Rightarrow> vc \<Rightarrow> vc" where
  "initializeMedia r s =
     (case r of
        Inl msg \<Rightarrow>
          setConnectionState
            (\<lambda>prev. prev\<lparr>error := Some (''Camera/Microphone access failed: '' @ msg)\<rparr>) s
      | Inr ks \<Rightarrow>
          setStreams (\<lambda>prev. prev\<lparr>localStream := Some [next_track s ..< next_track s + length ks]\<rparr>)
            (s\<lparr>tracks := alloc_tracks ks (next_track s) (tracks s),
               next_track := next_track s + length ks\<rparr>))"

definition findPartner :: "env \<Rightarrow> vc \<Rightarrow> vc" where
  "findPartner e s =
     (if \<not> socket_connected s then initializeSocket e s
      else
        (let s1 = setConnectionState
                    (\<lambda>prev. prev\<lparr>isConnected := False, isWaiting := True,
                                  status := ''Looking for a partner...''\<rparr>)
                    (cleanupPeerConnection s) in
         case socketRef s1 of None \<Rightarrow> s1 | Some k \<Rightarrow> emit_on k EmitFindMatch s1))"

text \<open>\<open>getAudioTracks().forEach(track => track.enabled = !track.enabled)\<close>: every track of
  the stream of the given kind is flipped once.\<close>

definition flip_enabled :: "track_kind \<Rightarrow> media_stream \<Rightarrow> (nat \<Rightarrow> track option) \<Rightarrow> (nat \<Rightarrow> track option)" where
  "flip_enabled k st h =
     (\<lambda>i. case h i of
            None \<Rightarrow> None
          | Some t \<Rightarrow> if i \<in> set st \<and> kind t = k then Some (t\<lparr>enabled := \<not> enabled t\<rparr>)
                      else Some t)"

definition toggleAudio :: "vc \<Rightarrow> vc" where
  "toggleAudio s =
     (case localStream (streams s) of
        None \<Rightarrow> s
      | Some st \<Rightarrow>
          setControls (\<lambda>prev. prev\<lparr>isMuted := \<not> isMuted prev\<rparr>)
            (s\<lparr>tracks := flip_enabled Audio st (tracks s)\<rparr>))"

definition toggleVideo :: "vc \<Rightarrow> vc" where
  "toggleVideo s =
     (case localStream (streams s) of
        None \<Rightarrow> s
      | Some st \<Rightarrow>
          setControls (\<lambda>prev. prev\<lparr>isVideoOff := \<not> isVideoOff prev\<rparr>)
            (s\<lparr>tracks := flip_enabled Video st (tracks s)\<rparr>))"

text \<open>The find-partner button: \<open>onClick={findPartner}\<close> of the current render, with
  \<open>disabled={connectionState.isWaiting}\<close>; a disabled button delivers no click.\<close>

definition click_findPartner :: "vc \<Rightarrow> vc" where
  "click_findPartner s =
     (if isWaiting (connectionState s) then s else findPartner (live_env s) s)"

subsection \<open>The component as a transition system\<close>

text \<open>The state of the first render, and the state after the mount effect
  (\<open>useEffect\<close> with an empty dependency list, so it runs once and sees the constants of
  the first render) has called \<open>initializeSocket\<close> of that render; \<open>initializeMedia\<close>
  settles later, as an event. The handlers of that socket keep the first render's
  \<open>createPeerConnection\<close> for as long as the socket lives.\<close>

definition initial :: vc where
  "initial =
     \<lparr>pcs = [], peerConnectionRef = None, isNegotiatingRef = False, makingOfferRef = False,
      reconnectTimeoutRef = None, timers = [], sockets = [], socketRef = None,
      streams = \<lparr>localStream = None, remoteStream = None\<rparr>,
      connectionState =
        \<lparr>isConnected = False, isWaiting = False, error = None, status = ''Initializing...'',
         isInitiator = False, reconnectAttempts = 0\<rparr>,
      controls = \<lparr>isMuted = False, isVideoOff = False\<rparr>,
      stats = \<lparr>totalUsers = 0, waitingUsers = 0, activePartnerships = 0\<rparr>,
      tracks = (\<lambda>_. None), next_track = 0, emitted = [], suspended = []\<rparr>"

definition mounted :: vc where
  "mounted = initializeSocket (live_env initial) initial"

text \<open>Everything that can happen to the mounted component. Socket events name the socket
  they arrive on, connection events the connection whose callback runs.\<close>

datatype event =
  SocketConnect nat
  | SocketDisconnect nat
  | ConnectError nat string
  | Match nat bool
  | Offer nat string description offer_outcome
  | Answer nat description bool
  | IceCandidateIn nat candidate bool
  | PartnerLeft nat
  | Waiting nat
  | StatsUpdate nat Stats
  | NegotiationNeeded nat
  | NegotiationSettled nat "description option"
  | Track nat "nat option"
  | IceCandidateOut nat "candidate option"
  | IceStateChange nat ice_state
  | MediaSettled "string + track_kind list"
  | ClickFindPartner
  | ClickToggleAudio
  | ClickToggleVideo
  | TimerFire nat
  | Disconnect

text \<open>A socket delivers events only once it exists; an open connection fires its
  callbacks, a closed one does not; a settled \<open>await\<close> resumes the handler that was
  suspended on it, with the outcome the browser gave; a timer fires once unless
  cleared.\<close>

definition on_socket :: "nat \<Rightarrow> (env \<Rightarrow> vc \<Rightarrow> vc) \<Rightarrow> vc \<Rightarrow> vc" where
  "on_socket k h s = (if k < length (sockets s) then h (sock_env (sockets s ! k)) s else s)"

definition on_pc :: "nat \<Rightarrow> (vc \<Rightarrow> vc) \<Rightarrow> vc \<Rightarrow> vc" where
  "on_pc p h s = (if p < length (pcs s) \<and> \<not> pc_closed (pcs s ! p) then h s else s)"

definition set_sock_connected :: "nat \<Rightarrow> bool \<Rightarrow> vc \<Rightarrow> vc" where
  "set_sock_connected k b s = s\<lparr>sockets := (sockets s)[k := (sockets s ! k)\<lparr>sock_connected := b\<rparr>]\<rparr>"

definition fire_timer :: "nat \<Rightarrow> vc \<Rightarrow> vc" where
  "fire_timer t s =
     (if t < length (timers s) \<and> \<not> timer_cleared (timers s ! t) \<and> \<not> timer_fired (timers s ! t)
      then findPartner (timer_env (timers s ! t))
             (s\<lparr>timers := (timers s)[t := (timers s ! t)\<lparr>timer_fired := True\<rparr>]\<rparr>)
      else s)"

definition settle_negotiation :: "nat \<Rightarrow> description option \<Rightarrow> vc \<Rightarrow> vc" where
  "settle_negotiation p r s =
     (if p \<in> set (suspended s)
      then negotiation_resume p r (s\<lparr>suspended := remove1 p (suspended s)\<rparr>)
      else s)"

fun step :: "event \<Rightarrow> vc \<Rightarrow> vc" where
  "step (SocketConnect k) s = on_socket k (\<lambda>e s. on_connect (set_sock_connected k True s)) s"
| "step (SocketDisconnect k) s = on_socket k (\<lambda>e s. set_sock_connected k False s) s"
| "step (ConnectError k msg) s = on_socket k (\<lambda>e. on_connect_error msg) s"
| "step (Match k ok) s = on_socket k (\<lambda>e. on_match e ok) s"
| "step (Offer k peerId offer oc) s = on_socket k (\<lambda>e. on_offer k e peerId offer oc) s"
| "step (Answer k answer ok) s = on_socket k (\<lambda>e. on_answer answer ok) s"
| "step (IceCandidateIn k c ok) s = on_socket k (\<lambda>e. on_ice_candidate c ok) s"
| "step (PartnerLeft k) s = on_socket k (\<lambda>e. on_partner_left) s"
| "step (Waiting k) s = on_socket k (\<lambda>e. on_waiting) s"
| "step (StatsUpdate k st) s = on_socket k (\<lambda>e. on_stats_update st) s"
| "step (NegotiationNeeded p) s = on_pc p (onnegotiationneeded p) s"
| "step (NegotiationSettled p r) s = settle_negotiation p r s"
| "step (Track p ev) s = on_pc p (ontrack ev) s"
| "step (IceCandidateOut p c) s = on_pc p (onicecandidate c) s"
| "step (IceStateChange p st) s =
     on_pc p (\<lambda>s. oniceconnectionstatechange p (upd_pc p (\<lambda>pc. pc\<lparr>iceConnectionState := st\<rparr>) s)) s"
| "step (MediaSettled r) s = initializeMedia r s"
| "step ClickFindPartner s = click_findPartner s"
| "step ClickToggleAudio s = toggleAudio s"
| "step ClickToggleVideo s = toggleVideo s"
| "step (TimerFire t) s = fire_timer t s"
| "step Disconnect s = handleDisconnect s"

fun run :: "event list \<Rightarrow> vc \<Rightarrow> vc" where
  "run [] s = s"
| "run (e # es) s = run es (step e s)"

subsection \<open>Example states, event sequences and invariants\<close>

text \<open>The mounted component after \<open>getUserMedia\<close> resolved with one audio and one video
  track.\<close>

definition with_media :: vc where
  "with_media = initializeMedia (Inr [Audio, Video]) mounted"

text \<open>A browser that accepts every call of the \<open>offer\<close> handler and answers with
  \<open>a\<close>; and what it means for one of the three awaited calls to fail.\<close>

definition all_ok :: "description \<Rightarrow> offer_outcome" where
  "all_ok a = \<lparr>construct_ok = True, setRemote_ok = True, createAnswer_res = Some a, setLocal_ok = True\<rparr>"

definition offer_fails :: "offer_outcome \<Rightarrow> bool" where
  "offer_fails oc = (\<not> setRemote_ok oc \<or> createAnswer_res oc = None \<or> \<not> setLocal_ok oc)"

text \<open>The socket connects, the user asks for a partner, the relay answers \<open>match\<close>: a
  live handle exists and nothing has been negotiated yet.\<close>

definition paired :: vc where
  "paired = run [SocketConnect 0, ClickFindPartner, Match 0 True] mounted"

text \<open>A component whose socket handlers were registered by a render that already held
  the initiator role: the first socket drops after a \<open>match\<close>, the user's click builds
  a second socket from the current render, and the next \<open>match\<close> arrives there. Its
  handle is connection 1.\<close>

definition to_initiator :: "event list" where
  "to_initiator =
     [SocketConnect 0, ClickFindPartner, Match 0 True, SocketDisconnect 0,
      ClickFindPartner, SocketConnect 1, ClickFindPartner, Match 1 True]"

definition initiator_paired :: vc where
  "initiator_paired = run to_initiator mounted"

text \<open>The same component while its renegotiation handler waits for
  \<open>setLocalDescription\<close>.\<close>

definition negotiating :: vc where
  "negotiating = step (NegotiationNeeded 1) initiator_paired"

text \<open>A browser that rejects the remote offer.\<close>

definition remote_rejected :: offer_outcome where
  "remote_rejected =
     \<lparr>construct_ok = True, setRemote_ok = False, createAnswer_res = Some ''answer'',
      setLocal_ok = True\<rparr>"


text \<open>The handles that are alive: the connections ever built that have not been closed.
  \<open>handles_ok\<close> says that the open connections are exactly the one the ref points to,
  and that the ref points into the heap.\<close>

definition live_handles :: "vc \<Rightarrow> nat list" where
  "live_handles s = filter (\<lambda>i. \<not> pc_closed (pcs s ! i)) [0..<length (pcs s)]"

definition handles_ok :: "vc \<Rightarrow> bool" where
  "handles_ok s =
     ((\<forall>i<length (pcs s). pc_closed (pcs s ! i) = (peerConnectionRef s \<noteq> Some i))
      \<and> (\<forall>i. peerConnectionRef s = Some i \<longrightarrow> i < length (pcs s)))"

text \<open>The side that is not sent \<open>match\<close>: it asks for a partner, is told to wait, and
  the first it hears of its partner is the partner's offer; then the remote track
  arrives.\<close>

definition responder_run :: "event list" where
  "responder_run =
     [SocketConnect 0, ClickFindPartner, Waiting 0,
      Offer 0 ''peer'' ''offer'' (all_ok ''answer''), Track 0 (Some 7)]"

text \<open>Three ICE failures in a row, each followed by the scheduled re-match and a new
  \<open>match\<close>; the handle is then connection 3.\<close>

definition retry_run :: "event list" where
  "retry_run =
     [SocketConnect 0, ClickFindPartner, Match 0 True,
      IceStateChange 0 IceFailed, TimerFire 0, Match 0 True,
      IceStateChange 1 IceFailed, TimerFire 1, Match 0 True,
      IceStateChange 2 IceFailed, TimerFire 2, Match 0 True]"

definition three_failures :: vc where
  "three_failures = run retry_run mounted"

text \<open>Three renegotiation triggers on the initiator's handle before the first
  \<open>setLocalDescription\<close> settles, then the settlements.\<close>

definition rapid_triggers :: "event list" where
  "rapid_triggers =
     [NegotiationNeeded 1, NegotiationNeeded 1, NegotiationNeeded 1,
      NegotiationSettled 1 (Some ''offer1''), NegotiationSettled 1 (Some ''offer2'')]"

definition fourth_failure :: vc where
  "fourth_failure = step (IceStateChange 3 IceFailed) three_failures"

text \<open>Connected and waiting are not both true.\<close>

definition exclusive :: "vc \<Rightarrow> bool" where
  "exclusive s = (\<not> (isConnected (connectionState s) \<and> isWaiting (connectionState s)))"

text \<open>A connection whose ICE agent has just reported failure, built by a render that
  had already counted three attempts.\<close>

definition exhausted :: vc where
  "exhausted =
     upd_pc 0 (\<lambda>pc. pc\<lparr>iceConnectionState := IceFailed\<rparr>)
       (fst (createPeerConnection
               \<lparr>cap_isInitiator = True, cap_reconnectAttempts = 3, cap_localStream = None\<rparr>
               True mounted))"

text \<open>The side that is sent \<open>match\<close>, gets its partner's track, and is then sent
  \<open>waiting\<close>.\<close>

definition late_waiting_run :: "event list" where
  "late_waiting_run =
     [SocketConnect 0, ClickFindPartner, Match 0 True, Track 0 (Some 7), Waiting 0]"


text \<open>A browser whose \<open>createAnswer\<close> rejects, and one that rejects the local
  description.\<close>

definition no_answer :: offer_outcome where
  "no_answer =
     \<lparr>construct_ok = True, setRemote_ok = True, createAnswer_res = None, setLocal_ok = True\<rparr>"

definition local_rejected :: offer_outcome where
  "local_rejected =
     \<lparr>construct_ok = True, setRemote_ok = True, createAnswer_res = Some ''answer'',
      setLocal_ok = False\<rparr>"


text \<open>The media are acquired, the socket connects, the user asks for a partner, and
  \<open>match\<close> arrives twice, the second time while the first handle is live.\<close>

definition media_rematch_run :: "event list" where
  "media_rematch_run =
     [MediaSettled (Inr [Audio, Video]), SocketConnect 0, ClickFindPartner,
      Match 0 True, Match 0 True]"

definition rematched :: vc where
  "rematched = run media_rematch_run mounted"

section \<open>Properties\<close>

subsection \<open>Evaluating the example states\<close>

lemmas state_defs =
  cleanupPeerConnection_def handleDisconnect_def createPeerConnection_def new_pc_def
  setConnectionState_def setStreams_def setControls_def upd_pc_def emit_on_def
  socket_connected_def live_env_def close_pc_def initializeSocket_def
  on_connect_def on_connect_error_def on_match_def on_socket_def on_pc_def
  set_sock_connected_def click_findPartner_def findPartner_def initial_def mounted_def
  on_waiting_def on_partner_left_def on_stats_update_def ontrack_def onicecandidate_def

lemma paired_eq:
  "paired =
   \<lparr>pcs = [new_pc \<lparr>cap_isInitiator = False, cap_reconnectAttempts = 0, cap_localStream = None\<rparr>],
    peerConnectionRef = Some 0, isNegotiatingRef = False, makingOfferRef = False,
    reconnectTimeoutRef = None, timers = [],
    sockets = [\<lparr>sock_connected = True,
                sock_env = \<lparr>cap_isInitiator = False, cap_reconnectAttempts = 0, cap_localStream = None\<rparr>\<rparr>],
    socketRef = Some 0,
    streams = \<lparr>localStream = None, remoteStream = None\<rparr>,
    connectionState =
      \<lparr>isConnected = False, isWaiting = False, error = None,
       status = ''Partner found! Establishing connection...'',
       isInitiator = True, reconnectAttempts = 0\<rparr>,
    controls = \<lparr>isMuted = False, isVideoOff = False\<rparr>,
    stats = \<lparr>totalUsers = 0, waitingUsers = 0, activePartnerships = 0\<rparr>,
    tracks = (\<lambda>_. None), next_track = 0, emitted = [(0, EmitFindMatch)], suspended = []\<rparr>"
  by (simp add: paired_def state_defs)

lemma with_media_tracks:
  "localStream (streams with_media) = Some [0, Suc 0]"
  "tracks with_media 0 = Some \<lparr>kind = Audio, enabled = True, ended = False\<rparr>"
  "tracks with_media (Suc 0) = Some \<lparr>kind = Video, enabled = True, ended = False\<rparr>"
  by (simp_all add: with_media_def initializeMedia_def mounted_def initializeSocket_def
      socket_connected_def initial_def setStreams_def upt_rec)

lemma initiator_paired_eq:
  "initiator_paired =
   \<lparr>pcs =
      [close_pc (new_pc \<lparr>cap_isInitiator = False, cap_reconnectAttempts = 0, cap_localStream = None\<rparr>),
       new_pc \<lparr>cap_isInitiator = True, cap_reconnectAttempts = 0, cap_localStream = None\<rparr>],
    peerConnectionRef = Some 1, isNegotiatingRef = False, makingOfferRef = False,
    reconnectTimeoutRef = None, timers = [],
    sockets =
      [\<lparr>sock_connected = False,
        sock_env = \<lparr>cap_isInitiator = False, cap_reconnectAttempts = 0, cap_localStream = None\<rparr>\<rparr>,
       \<lparr>sock_connected = True,
        sock_env = \<lparr>cap_isInitiator = True, cap_reconnectAttempts = 0, cap_localStream = None\<rparr>\<rparr>],
    socketRef = Some 1,
    streams = \<lparr>localStream = None, remoteStream = None\<rparr>,
    connectionState =
      \<lparr>isConnected = False, isWaiting = False, error = None,
       status = ''Partner found! Establishing connection...'',
       isInitiator = True, reconnectAttempts = 0\<rparr>,
    controls = \<lparr>isMuted = False, isVideoOff = False\<rparr>,
    stats = \<lparr>totalUsers = 0, waitingUsers = 0, activePartnerships = 0\<rparr>,
    tracks = (\<lambda>_. None), next_track = 0,
    emitted = [(0, EmitFindMatch), (1, EmitFindMatch)], suspended = []\<rparr>"
  by (simp add: initiator_paired_def to_initiator_def state_defs)

lemma negotiating_eq:
  "negotiating = initiator_paired\<lparr>isNegotiatingRef := True, makingOfferRef := True, suspended := [1]\<rparr>"
  by (simp add: negotiating_def initiator_paired_eq on_pc_def onnegotiationneeded_def new_pc_def)


lemma three_failures_facts:
  "reconnectAttempts (connectionState three_failures) = 3"
  "peerConnectionRef three_failures = Some 3"
  "length (pcs three_failures) = 4"
  "pcs three_failures ! 3 = new_pc \<lparr>cap_isInitiator = False, cap_reconnectAttempts = 0, cap_localStream = None\<rparr>"
  "length (timers three_failures) = 3"
  "reconnectTimeoutRef three_failures = Some 2"
  "error (connectionState three_failures) = None"
  by (simp_all add: three_failures_def retry_run_def state_defs oniceconnectionstatechange_def
      schedule_reconnect_def clearTimeout_def fire_timer_def MAX_RECONNECT_ATTEMPTS_def
      RECONNECT_DELAY_def)

subsection \<open>cleanupPeerConnection\<close>

text \<open>
  Claim C10. \<open>cleanupPeerConnection\<close> is idempotent and total: after one call the
  peer-connection handle is null and the remote stream is null, a second call in a row
  changes nothing, and no call touches the local stream, the local tracks or the
  connection-status fields. (Totality: the function is defined on every state and the
  source has no branch that throws.)
\<close>

theorem cleanupPeerConnection_idempotent:
  "peerConnectionRef (cleanupPeerConnection s) = None
   \<and> remoteStream (streams (cleanupPeerConnection s)) = None
   \<and> cleanupPeerConnection (cleanupPeerConnection s) = cleanupPeerConnection s
   \<and> localStream (streams (cleanupPeerConnection s)) = localStream (streams s)
   \<and> tracks (cleanupPeerConnection s) = tracks s
   \<and> connectionState (cleanupPeerConnection s) = connectionState s"
  by (simp add: cleanupPeerConnection_def setStreams_def upd_pc_def split: option.split)

subsection \<open>At most one live handle\<close>

lemma handles_ok_view:
  assumes "map pc_closed (pcs s') = map pc_closed (pcs s)"
    and "peerConnectionRef s' = peerConnectionRef s" and "handles_ok s"
  shows "handles_ok s'"
proof -
  have len: "length (pcs s') = length (pcs s)"
    using assms(1) by (rule map_eq_imp_length_eq)
  have nth: "pc_closed (pcs s' ! i) = pc_closed (pcs s ! i)" if "i < length (pcs s)" for i
  proof -
    have "map pc_closed (pcs s') ! i = map pc_closed (pcs s) ! i"
      using assms(1) by simp
    then show ?thesis
      using that len by simp
  qed
  show ?thesis
    using assms(3) by (simp add: handles_ok_def len nth assms(2))
qed

lemma upd_pc_view:
  assumes "\<And>pc. pc_closed (f pc) = pc_closed pc"
  shows "map pc_closed (pcs (upd_pc p f s)) = map pc_closed (pcs s)"
    and "peerConnectionRef (upd_pc p f s) = peerConnectionRef s"
proof -
  show "map pc_closed (pcs (upd_pc p f s)) = map pc_closed (pcs s)"
  proof (cases "p < length (pcs s)")
    case True
    then show ?thesis
      by (simp add: upd_pc_def map_update assms list_update_same_conv)
  next
    case False
    then show ?thesis
      by (simp add: upd_pc_def list_update_beyond)
  qed
  show "peerConnectionRef (upd_pc p f s) = peerConnectionRef s"
    by (simp add: upd_pc_def)
qed

lemma handles_ok_upd_pc:
  "(\<And>pc. pc_closed (f pc) = pc_closed pc) \<Longrightarrow> handles_ok s \<Longrightarrow> handles_ok (upd_pc p f s)"
  using handles_ok_view upd_pc_view by blast

lemma handles_ok_setConnectionState [simp]:
  "handles_ok (setConnectionState f s) = handles_ok s"
  by (simp add: handles_ok_def setConnectionState_def)

lemma handles_ok_setStreams [simp]: "handles_ok (setStreams f s) = handles_ok s"
  by (simp add: handles_ok_def setStreams_def)

lemma handles_ok_setControls [simp]: "handles_ok (setControls f s) = handles_ok s"
  by (simp add: handles_ok_def setControls_def)

lemma handles_ok_emit_on [simp]: "handles_ok (emit_on k e s) = handles_ok s"
  by (simp add: handles_ok_def emit_on_def)

lemma cleanup_all_closed:
  assumes "handles_ok s"
  shows "peerConnectionRef (cleanupPeerConnection s) = None"
    and "length (pcs (cleanupPeerConnection s)) = length (pcs s)"
    and "i < length (pcs s) \<Longrightarrow> pc_closed (pcs (cleanupPeerConnection s) ! i)"
proof -
  show "peerConnectionRef (cleanupPeerConnection s) = None"
    by (simp add: cleanupPeerConnection_def setStreams_def upd_pc_def split: option.split)
  show "length (pcs (cleanupPeerConnection s)) = length (pcs s)"
    by (simp add: cleanupPeerConnection_def setStreams_def upd_pc_def split: option.split)
  show "pc_closed (pcs (cleanupPeerConnection s) ! i)" if i: "i < length (pcs s)"
  proof (cases "peerConnectionRef s")
    case None
    then have "pcs (cleanupPeerConnection s) = pcs s"
      by (simp add: cleanupPeerConnection_def setStreams_def)
    moreover have "pc_closed (pcs s ! i)"
      using assms i None by (simp add: handles_ok_def)
    ultimately show ?thesis
      by simp
  next
    case (Some j)
    then have eq: "pcs (cleanupPeerConnection s) = (pcs s)[j := close_pc (pcs s ! j)]"
      by (simp add: cleanupPeerConnection_def setStreams_def upd_pc_def)
    show ?thesis
    proof (cases "i = j")
      case True
      then show ?thesis
        using i eq by (simp add: close_pc_def)
    next
      case False
      then have "pc_closed (pcs s ! i)"
        using assms i Some by (simp add: handles_ok_def)
      then show ?thesis
        using False eq by simp
    qed
  qed
qed

lemma handles_ok_cleanup: "handles_ok s \<Longrightarrow> handles_ok (cleanupPeerConnection s)"
  using cleanup_all_closed [of s] by (simp add: handles_ok_def)

lemma handles_ok_handleDisconnect: "handles_ok s \<Longrightarrow> handles_ok (handleDisconnect s)"
  by (simp add: handleDisconnect_def handles_ok_cleanup)

lemma create_ok_result:
  "fst (createPeerConnection e True s) =
     (cleanupPeerConnection s)
       \<lparr>pcs := pcs (cleanupPeerConnection s) @ [new_pc e],
        peerConnectionRef := Some (length (pcs (cleanupPeerConnection s)))\<rparr>"
  by (simp add: createPeerConnection_def Let_def)

lemma handles_ok_create:
  assumes "handles_ok s"
  shows "handles_ok (fst (createPeerConnection e ok s))"
proof (cases ok)
  case True
  let ?c = "cleanupPeerConnection s"
  have closed: "pc_closed (pcs ?c ! i)" if "i < length (pcs ?c)" for i
    using cleanup_all_closed(2,3) [OF assms] that by simp
  have new: "\<not> pc_closed (new_pc e)"
    by (simp add: new_pc_def)
  have "handles_ok (?c\<lparr>pcs := pcs ?c @ [new_pc e], peerConnectionRef := Some (length (pcs ?c))\<rparr>)"
    unfolding handles_ok_def using closed new
    by (simp add: nth_append less_Suc_eq)
  then show ?thesis
    using True by (simp add: create_ok_result)
next
  case False
  then show ?thesis
    using handles_ok_cleanup [OF assms] by (simp add: createPeerConnection_def Let_def)
qed

lemma handles_ok_initializeSocket [simp]: "handles_ok (initializeSocket e s) = handles_ok s"
  by (simp add: handles_ok_def initializeSocket_def)

lemma handles_ok_findPartner: "handles_ok s \<Longrightarrow> handles_ok (findPartner e s)"
  by (simp add: findPartner_def Let_def handles_ok_cleanup split: option.split)

lemma handles_ok_on_match: "handles_ok s \<Longrightarrow> handles_ok (on_match e ok s)"
  by (simp add: on_match_def handles_ok_create)

lemma handles_ok_on_offer: 
  assumes "handles_ok s"
  shows "handles_ok (on_offer k e peerId offer oc s)"
proof -
  obtain s1 pc where c: "(case peerConnectionRef s of Some i \<Rightarrow> (s, Some i)
                      | None \<Rightarrow> createPeerConnection e (construct_ok oc) s) = (s1, pc)"
    by (cases "(case peerConnectionRef s of Some i \<Rightarrow> (s, Some i)
                      | None \<Rightarrow> createPeerConnection e (construct_ok oc) s)") blast
  have s1: "handles_ok s1"
  proof (cases "peerConnectionRef s")
    case None
    with c have "s1 = fst (createPeerConnection e (construct_ok oc) s)" by simp
    then show ?thesis using handles_ok_create [OF assms] by simp
  next
    case (Some i)
    with c assms show ?thesis by simp
  qed
  show ?thesis
    using s1 c
    by (auto simp add: on_offer_def Let_def handles_ok_handleDisconnect handles_ok_upd_pc
        split: option.split)
qed

lemma handles_ok_on_answer: "handles_ok s \<Longrightarrow> handles_ok (on_answer a ok s)"
  by (simp add: on_answer_def handles_ok_handleDisconnect handles_ok_upd_pc split: option.split)

lemma handles_ok_on_ice_candidate: "handles_ok s \<Longrightarrow> handles_ok (on_ice_candidate c ok s)"
  by (simp add: on_ice_candidate_def handles_ok_upd_pc split: option.split)

lemma handles_ok_negotiation:
  "handles_ok s \<Longrightarrow> handles_ok (onnegotiationneeded p s)"
  "handles_ok s \<Longrightarrow> handles_ok (settle_negotiation p r s)"
proof -
  have fin: "handles_ok (negotiation_finally t) = handles_ok t" for t
    by (simp add: handles_ok_def negotiation_finally_def)
  show "handles_ok s \<Longrightarrow> handles_ok (onnegotiationneeded p s)"
    by (simp add: onnegotiationneeded_def fin) (simp add: handles_ok_def)
  have sus: "handles_ok (t\<lparr>suspended := x\<rparr>) = handles_ok t" for t x
    by (simp add: handles_ok_def)
  have impl: "pc_closed (implicit_local d pc) = pc_closed pc" for d pc
    by (simp add: implicit_local_def)
  have res: "handles_ok t \<Longrightarrow> handles_ok (negotiation_resume p r' t)" for t r'
    by (simp add: negotiation_resume_def fin Let_def handles_ok_upd_pc impl
        split: option.split)
  show "handles_ok s \<Longrightarrow> handles_ok (settle_negotiation p r s)"
    by (simp add: settle_negotiation_def res sus)
qed

lemma handles_ok_pc_callbacks:
  "handles_ok s \<Longrightarrow> handles_ok (ontrack ev s)"
  "handles_ok s \<Longrightarrow> handles_ok (onicecandidate c s)"
  "handles_ok s \<Longrightarrow> handles_ok (oniceconnectionstatechange p s)"
proof -
  show "handles_ok s \<Longrightarrow> handles_ok (ontrack ev s)"
    by (simp add: ontrack_def split: option.split)
  show "handles_ok s \<Longrightarrow> handles_ok (onicecandidate c s)"
    by (simp add: onicecandidate_def split: option.split)
  have sched: "handles_ok (schedule_reconnect e t) = handles_ok t" for e t
    by (simp add: schedule_reconnect_def clearTimeout_def Let_def handles_ok_def
        split: option.split)
  show "handles_ok s \<Longrightarrow> handles_ok (oniceconnectionstatechange p s)"
    by (simp add: oniceconnectionstatechange_def Let_def sched handles_ok_handleDisconnect
        split: ice_state.split)
qed

lemma handles_ok_step: "handles_ok s \<Longrightarrow> handles_ok (step ev s)"
proof (cases ev)
  case (IceStateChange p st)
  assume h: "handles_ok s"
  have "handles_ok (upd_pc p (\<lambda>pc. pc\<lparr>iceConnectionState := st\<rparr>) s)"
    using h by (simp add: handles_ok_upd_pc)
  then show ?thesis
    using h IceStateChange by (simp add: on_pc_def handles_ok_pc_callbacks)
next
  case (TimerFire t)
  assume h: "handles_ok s"
  have "handles_ok (s\<lparr>timers := x\<rparr>)" for x
    using h by (simp add: handles_ok_def)
  then show ?thesis
    using h TimerFire by (simp add: fire_timer_def handles_ok_findPartner)
next
  case (MediaSettled r)
  assume h: "handles_ok s"
  have "handles_ok (s\<lparr>tracks := x, next_track := y\<rparr>)" for x y
    using h by (simp add: handles_ok_def)
  then show ?thesis
    using h MediaSettled by (simp add: initializeMedia_def split: sum.split)
next
  case (SocketConnect k)
  assume h: "handles_ok s"
  have "handles_ok (set_sock_connected k b s)" for b
    using h by (simp add: handles_ok_def set_sock_connected_def)
  then show ?thesis
    using h SocketConnect by (simp add: on_socket_def on_connect_def)
next
  case (SocketDisconnect k)
  assume h: "handles_ok s"
  have "handles_ok (set_sock_connected k b s)" for b
    using h by (simp add: handles_ok_def set_sock_connected_def)
  then show ?thesis
    using h SocketDisconnect by (simp add: on_socket_def)
next
  case (StatsUpdate k st)
  assume h: "handles_ok s"
  then have "handles_ok (on_stats_update st s)"
    by (simp add: handles_ok_def on_stats_update_def)
  then show ?thesis
    using h StatsUpdate by (simp add: on_socket_def)
next
  case ClickToggleAudio
  assume h: "handles_ok s"
  have "handles_ok (s\<lparr>tracks := x\<rparr>)" for x
    using h by (simp add: handles_ok_def)
  then show ?thesis
    using h ClickToggleAudio by (simp add: toggleAudio_def split: option.split)
next
  case ClickToggleVideo
  assume h: "handles_ok s"
  have "handles_ok (s\<lparr>tracks := x\<rparr>)" for x
    using h by (simp add: handles_ok_def)
  then show ?thesis
    using h ClickToggleVideo by (simp add: toggleVideo_def split: option.split)
qed (simp_all add: on_socket_def on_pc_def on_connect_error_def handles_ok_on_match
    handles_ok_on_offer handles_ok_on_answer handles_ok_on_ice_candidate on_partner_left_def
    handles_ok_handleDisconnect on_waiting_def handles_ok_negotiation handles_ok_pc_callbacks
    click_findPartner_def handles_ok_findPartner)

lemma handles_ok_run: "handles_ok s \<Longrightarrow> handles_ok (run evs s)"
  by (induction evs arbitrary: s) (simp_all add: handles_ok_step)

lemma handles_ok_mounted: "handles_ok mounted"
  by (simp add: handles_ok_def state_defs)

lemma live_handles_ref:
  assumes "handles_ok s"
  shows "live_handles s = (case peerConnectionRef s of None \<Rightarrow> [] | Some i \<Rightarrow> [i])"
proof (cases "peerConnectionRef s")
  case None
  then have "\<forall>i < length (pcs s). pc_closed (pcs s ! i)"
    using assms by (simp add: handles_ok_def)
  then show ?thesis
    using None by (simp add: live_handles_def filter_empty_conv)
next
  case (Some j)
  have d: "distinct (live_handles s)"
    by (simp add: live_handles_def)
  have j: "j < length (pcs s)"
    using assms Some by (simp add: handles_ok_def)
  have "set (live_handles s) = {i. i < length (pcs s) \<and> \<not> pc_closed (pcs s ! i)}"
    by (auto simp add: live_handles_def)
  also have "\<dots> = {j}"
    using assms Some j by (auto simp add: handles_ok_def)
  finally have st: "set (live_handles s) = {j}" .
  have "length (live_handles s) = card (set (live_handles s))"
    using d by (simp add: distinct_card)
  then have "length (live_handles s) = 1"
    using st by simp
  then obtain x where "live_handles s = [x]"
    by (cases "live_handles s") auto
  then have "live_handles s = [j]"
    using st by auto
  then show ?thesis
    using Some by simp
qed
lemma create_frame:
  "snd (createPeerConnection e True s) = Some (length (pcs s))
   \<and> peerConnectionRef (fst (createPeerConnection e True s)) = Some (length (pcs s))
   \<and> length (pcs (fst (createPeerConnection e True s))) = Suc (length (pcs s))
   \<and> pcs (fst (createPeerConnection e True s)) ! length (pcs s) = new_pc e
   \<and> remoteStream (streams (fst (createPeerConnection e True s))) = None
   \<and> localStream (streams (fst (createPeerConnection e True s))) = localStream (streams s)
   \<and> tracks (fst (createPeerConnection e True s)) = tracks s
   \<and> connectionState (fst (createPeerConnection e True s)) = connectionState s"
  by (simp add: createPeerConnection_def Let_def cleanupPeerConnection_def setStreams_def
      upd_pc_def nth_append split: option.split)

lemma create_after_cleanup:
  "createPeerConnection e ok (cleanupPeerConnection s) = createPeerConnection e ok s"
  by (simp add: createPeerConnection_def Let_def cleanupPeerConnection_def setStreams_def
      upd_pc_def split: option.split)

lemma create_closes_old:
  assumes "handles_ok s" "i < length (pcs s)"
  shows "pc_closed (pcs (fst (createPeerConnection e True s)) ! i)"
  using cleanup_all_closed(2,3) [OF assms(1)] assms(2)
  by (simp add: create_ok_result nth_append)

text \<open>
  In every state the mounted component can reach there is at most one live handle, and
  it is the one \<open>peerConnectionRef\<close> holds. \<open>createPeerConnection\<close> tears the old
  handle down first: creating is the same as cleaning up and then creating, after the
  cleanup no handle is alive, the old handle is closed in the result and the remote
  stream is cleared, while the local stream and its tracks are untouched; the new
  connection is then the only live handle.
\<close>

lemma one_live_handle:
  "(let s = run evs mounted; s' = fst (createPeerConnection e True s) in
      length (live_handles s) \<le> 1
      \<and> live_handles s = (case peerConnectionRef s of None \<Rightarrow> [] | Some i \<Rightarrow> [i])
      \<and> createPeerConnection e True s = createPeerConnection e True (cleanupPeerConnection s)
      \<and> live_handles (cleanupPeerConnection s) = []
      \<and> (\<forall>i. peerConnectionRef s = Some i \<longrightarrow> pc_closed (pcs s' ! i))
      \<and> live_handles s' = [length (pcs s)]
      \<and> snd (createPeerConnection e True s) = Some (length (pcs s))
      \<and> pcs s' ! length (pcs s) = new_pc e
      \<and> \<not> pc_closed (new_pc e)
      \<and> remoteStream (streams s') = None
      \<and> localStream (streams s') = localStream (streams s)
      \<and> tracks s' = tracks s)"
proof -
  define s where "s = run evs mounted"
  define s' where "s' = fst (createPeerConnection e True s)"
  have ok: "handles_ok s"
    unfolding s_def by (rule handles_ok_run [OF handles_ok_mounted])
  have live: "live_handles s = (case peerConnectionRef s of None \<Rightarrow> [] | Some i \<Rightarrow> [i])"
    by (rule live_handles_ref [OF ok])
  then have le: "length (live_handles s) \<le> 1"
    by (simp split: option.split)
  have clean: "live_handles (cleanupPeerConnection s) = []"
    using live_handles_ref [OF handles_ok_cleanup [OF ok]] cleanup_all_closed(1) [OF ok]
    by simp
  have old: "pc_closed (pcs s' ! i)" if "peerConnectionRef s = Some i" for i
  proof -
    have "i < length (pcs s)"
      using ok that by (simp add: handles_ok_def)
    then show ?thesis
      unfolding s'_def by (rule create_closes_old [OF ok])
  qed
  have new: "live_handles s' = [length (pcs s)]"
    using live_handles_ref [OF handles_ok_create [OF ok, of e True]] create_frame [of e s]
    by (simp add: s'_def)
  have fr: "snd (createPeerConnection e True s) = Some (length (pcs s))
      \<and> pcs s' ! length (pcs s) = new_pc e
      \<and> remoteStream (streams s') = None
      \<and> localStream (streams s') = localStream (streams s)
      \<and> tracks s' = tracks s"
    using create_frame [of e s] by (simp add: s'_def)
  have np: "\<not> pc_closed (new_pc e)"
    by (simp add: new_pc_def)
  have "length (live_handles s) \<le> 1
      \<and> live_handles s = (case peerConnectionRef s of None \<Rightarrow> [] | Some i \<Rightarrow> [i])
      \<and> createPeerConnection e True s = createPeerConnection e True (cleanupPeerConnection s)
      \<and> live_handles (cleanupPeerConnection s) = []
      \<and> (\<forall>i. peerConnectionRef s = Some i \<longrightarrow> pc_closed (pcs s' ! i))
      \<and> live_handles s' = [length (pcs s)]
      \<and> snd (createPeerConnection e True s) = Some (length (pcs s))
      \<and> pcs s' ! length (pcs s) = new_pc e
      \<and> \<not> pc_closed (new_pc e)
      \<and> remoteStream (streams s') = None
      \<and> localStream (streams s') = localStream (streams s)
      \<and> tracks s' = tracks s"
    using le live clean old new fr np create_after_cleanup [of e True s] by simp
  then show ?thesis
    unfolding s_def s'_def Let_def .
qed

lemma rematched_facts:
  "localStream (streams rematched) = Some [0, Suc 0]"
  "map_option ended (tracks rematched 0) = Some False"
  "map_option ended (tracks rematched (Suc 0)) = Some False"
  "peerConnectionRef rematched = Some (Suc 0)"
  "length (pcs rematched) = 2"
  "pc_closed (pcs rematched ! 0)"
  "pc_closed (pcs rematched ! Suc 0) = False"
  "remoteStream (streams rematched) = None"
  "cap_localStream (pc_env (pcs rematched ! Suc 0)) = None"
  "senders (pcs rematched ! Suc 0) = []"
  by (simp_all add: rematched_def media_rematch_run_def initializeMedia_def state_defs upt_rec)

text \<open>
  Claim C3 says that at every instant at most one handle exists, and that creating a
  connection while a handle is live first tears the old one down (its connection
  closed, the remote stream cleared, the local tracks untouched) before the new
  connection is created and the local tracks are attached. The last part does not hold
  of the code. The \<open>addTrack\<close> loop reads the \<open>streams.localStream\<close> of the render whose
  \<open>createPeerConnection\<close> runs; the socket handlers are registered once, by the mount
  effect, and keep the first render's, whose local stream is null. After the media
  have been acquired and two \<open>match\<close> events have arrived, the first handle is closed,
  the second is the only live one, the remote stream is null and both local tracks are
  live, but the new connection carries no track.
\<close>

theorem rematch_attaches_no_tracks:
  "localStream (streams rematched) = Some [0, 1]
   \<and> map_option ended (tracks rematched 0) = Some False
   \<and> map_option ended (tracks rematched 1) = Some False
   \<and> peerConnectionRef rematched = Some 1
   \<and> pc_closed (pcs rematched ! 0)
   \<and> pc_closed (pcs rematched ! 1) = False
   \<and> live_handles rematched = [1]
   \<and> remoteStream (streams rematched) = None
   \<and> cap_localStream (pc_env (pcs rematched ! 1)) = None
   \<and> senders (pcs rematched ! 1) = []"
proof -
  have "handles_ok rematched"
    unfolding rematched_def by (rule handles_ok_run [OF handles_ok_mounted])
  then have "live_handles rematched = [1]"
    using live_handles_ref [of rematched] by (simp add: rematched_facts)
  then show ?thesis
    by (simp add: rematched_facts)
qed

subsection \<open>toggleAudio\<close>

lemma flip_enabled_twice: "flip_enabled k st (flip_enabled k st h) = h"
  by (rule ext) (auto simp add: flip_enabled_def split: option.split)

lemma flip_enabled_ended: "map_option ended (flip_enabled k st h i) = map_option ended (h i)"
  by (simp add: flip_enabled_def split: option.split)

text \<open>
  Claim C9. For every local stream, calling \<open>toggleAudio\<close> twice returns each audio
  track's \<open>enabled\<close> flag to its original value (the whole component state is back
  where it was), one call flips exactly the audio tracks of the stream, and a call
  neither stops a track nor emits anything nor alters the negotiation flags, the
  suspended negotiations, the peer connections or the connection status.
\<close>

theorem toggleAudio_twice_local:
  "toggleAudio (toggleAudio s) = s
   \<and> tracks (toggleAudio s) =
       (case localStream (streams s) of None \<Rightarrow> tracks s
        | Some st \<Rightarrow> flip_enabled Audio st (tracks s))
   \<and> (\<forall>i. map_option ended (tracks (toggleAudio s) i) = map_option ended (tracks s i))
   \<and> emitted (toggleAudio s) = emitted s
   \<and> isNegotiatingRef (toggleAudio s) = isNegotiatingRef s
   \<and> makingOfferRef (toggleAudio s) = makingOfferRef s
   \<and> suspended (toggleAudio s) = suspended s
   \<and> pcs (toggleAudio s) = pcs s
   \<and> peerConnectionRef (toggleAudio s) = peerConnectionRef s
   \<and> connectionState (toggleAudio s) = connectionState s"
  by (simp add: toggleAudio_def setControls_def flip_enabled_twice flip_enabled_ended
      split: option.split)

text \<open>On a stream with an audio and a video track: one call disables the audio track
  and leaves the video track alone, the second call enables it again.\<close>

theorem toggleAudio_twice_local_witness:
  "map_option enabled (tracks (toggleAudio with_media) 0) = Some False
   \<and> map_option enabled (tracks (toggleAudio with_media) 1) = Some True
   \<and> map_option enabled (tracks (toggleAudio (toggleAudio with_media)) 0) = Some True
   \<and> map_option ended (tracks (toggleAudio with_media) 0) = Some False"
  using toggleAudio_twice_local [of with_media]
  by (simp add: with_media_tracks flip_enabled_def)

subsection \<open>Handling an inbound offer\<close>





subsection \<open>Stale answers and candidates\<close>

text \<open>
  Claim C7. Stale inbound signaling events are dropped without surfacing an error or
  changing any state: an \<open>answer\<close> that arrives when no handle exists leaves the state
  as it was, and otherwise the handler applies it as the remote description (when the
  browser accepts it, the remote description of the handle is that answer); an inbound
  \<open>ice-candidate\<close> is added only when a handle exists and its remote description is
  set, and is dropped otherwise, with no queue: the state is unchanged. A candidate the
  browser rejects is dropped as well.
\<close>

theorem stale_signaling_dropped:
  "(peerConnectionRef s = None \<longrightarrow>
      on_answer a ok s = s \<and> on_ice_candidate c ok' s = s
      \<and> step (Answer k a ok) s = s \<and> step (IceCandidateIn k c ok') s = s)
   \<and> (peerConnectionRef s = Some i \<and> i < length (pcs s) \<longrightarrow>
      on_answer a True s =
        upd_pc i (\<lambda>pc. pc\<lparr>remoteDescription := Some a, signalingState := Stable\<rparr>) s
      \<and> remoteDescription (pcs (on_answer a True s) ! i) = Some a)
   \<and> (peerConnectionRef s = Some i \<and> remoteDescription (pcs s ! i) = None \<longrightarrow>
      on_ice_candidate c ok' s = s)
   \<and> (peerConnectionRef s = Some i \<and> i < length (pcs s) \<and> remoteDescription (pcs s ! i) \<noteq> None \<longrightarrow>
      remoteCandidates (pcs (on_ice_candidate c True s) ! i) = remoteCandidates (pcs s ! i) @ [c]
      \<and> on_ice_candidate c False s = s)"
  by (auto simp add: on_answer_def on_ice_candidate_def upd_pc_def on_socket_def)

text \<open>With no handle (\<open>mounted\<close>) both events are dropped; with a fresh handle
  (\<open>paired\<close>) the answer becomes the remote description and a candidate that comes
  before it is dropped; after the answer the candidate is added.\<close>

theorem stale_signaling_dropped_witness:
  "on_answer ''sdp'' True mounted = mounted
   \<and> on_ice_candidate ''cand'' True mounted = mounted
   \<and> remoteDescription (pcs (on_answer ''sdp'' True paired) ! 0) = Some ''sdp''
   \<and> on_ice_candidate ''cand'' True paired = paired
   \<and> remoteCandidates (pcs (on_ice_candidate ''cand'' True (on_answer ''sdp'' True paired)) ! 0) = [''cand'']"
proof -
  have m: "peerConnectionRef mounted = None"
    by (simp add: state_defs)
  have p: "peerConnectionRef paired = Some 0 \<and> 0 < length (pcs paired)"
    by (simp add: paired_eq)
  have p0: "peerConnectionRef paired = Some 0 \<and> remoteDescription (pcs paired ! 0) = None"
    by (simp add: paired_eq new_pc_def)
  let ?q = "on_answer ''sdp'' True paired"
  have q: "peerConnectionRef ?q = Some 0 \<and> 0 < length (pcs ?q)
           \<and> remoteDescription (pcs ?q ! 0) \<noteq> None \<and> remoteCandidates (pcs ?q ! 0) = []"
    by (simp add: paired_eq on_answer_def upd_pc_def new_pc_def)
  have a1: "on_answer ''sdp'' True mounted = mounted
            \<and> on_ice_candidate ''cand'' True mounted = mounted"
    using stale_signaling_dropped [where s = mounted and a = "''sdp''" and c = "''cand''"] m
    by blast
  have a2: "remoteDescription (pcs ?q ! 0) = Some ''sdp''
            \<and> on_ice_candidate ''cand'' True paired = paired"
    using stale_signaling_dropped [where s = paired and i = 0 and a = "''sdp''" and c = "''cand''"]
      p p0
    by blast
  have a3: "remoteCandidates (pcs (on_ice_candidate ''cand'' True ?q) ! 0)
            = remoteCandidates (pcs ?q ! 0) @ [''cand'']"
    using stale_signaling_dropped [where s = "?q" and i = 0 and a = "''sdp''" and c = "''cand''"] q
    by blast
  from q have a4: "remoteCandidates (pcs ?q ! 0) = []"
    by blast
  show ?thesis
    using a1 a2 a3 a4 by simp
qed

subsection \<open>Failures while handling an offer or an answer\<close>

lemma handleDisconnect_effect:
  "peerConnectionRef (handleDisconnect s) = None
   \<and> remoteStream (streams (handleDisconnect s)) = None
   \<and> localStream (streams (handleDisconnect s)) = localStream (streams s)
   \<and> tracks (handleDisconnect s) = tracks s
   \<and> emitted (handleDisconnect s) = emitted s
   \<and> connectionState (handleDisconnect s) =
       (connectionState s)\<lparr>isConnected := False, isWaiting := False,
                             status := ''Disconnected'', isInitiator := False\<rparr>"
  by (simp add: handleDisconnect_def cleanupPeerConnection_def setConnectionState_def
      setStreams_def upd_pc_def split: option.split)

lemma handleDisconnect_closes:
  "peerConnectionRef s = Some i \<Longrightarrow> i < length (pcs s) \<Longrightarrow> pc_closed (pcs (handleDisconnect s) ! i)"
  by (simp add: handleDisconnect_def cleanupPeerConnection_def setConnectionState_def
      setStreams_def upd_pc_def close_pc_def)

lemma on_offer_failure:
  assumes "peerConnectionRef s = Some i" "\<not> offerCollision e i s" "offer_fails oc"
  shows "on_offer k e peerId offer oc s = handleDisconnect s
         \<or> on_offer k e peerId offer oc s =
             handleDisconnect (upd_pc i (\<lambda>pc. pc\<lparr>remoteDescription := Some offer,
                                                  signalingState := HaveRemoteOffer\<rparr>) s)"
  using assms by (auto simp add: on_offer_def offer_fails_def Let_def split: option.split)

lemma fresh_handle_facts:
  assumes "peerConnectionRef s = None"
  shows "peerConnectionRef (fst (createPeerConnection e True s)) = Some (length (pcs s))"
    and "snd (createPeerConnection e True s) = Some (length (pcs s))"
    and "pcs (fst (createPeerConnection e True s)) = pcs s @ [new_pc e]"
    and "connectionState (fst (createPeerConnection e True s)) = connectionState s"
    and "emitted (fst (createPeerConnection e True s)) = emitted s"
    and "tracks (fst (createPeerConnection e True s)) = tracks s"
    and "localStream (streams (fst (createPeerConnection e True s))) = localStream (streams s)"
    and "makingOfferRef (fst (createPeerConnection e True s)) = makingOfferRef s"
  using assms
  by (simp_all add: createPeerConnection_def Let_def cleanupPeerConnection_def setStreams_def)

lemma on_offer_failure_fresh:
  assumes "peerConnectionRef s = None" "construct_ok oc" "\<not> makingOfferRef s" "offer_fails oc"
  shows "on_offer k e peerId offer oc s = handleDisconnect (fst (createPeerConnection e True s))
         \<or> on_offer k e peerId offer oc s =
             handleDisconnect
               (upd_pc (length (pcs s))
                  (\<lambda>pc. pc\<lparr>remoteDescription := Some offer, signalingState := HaveRemoteOffer\<rparr>)
                  (fst (createPeerConnection e True s)))"
proof -
  obtain s1 where s1: "createPeerConnection e True s = (s1, Some (length (pcs s)))"
    using fresh_handle_facts(2) [OF assms(1), of e]
    by (cases "createPeerConnection e True s") simp
  have nc: "\<not> offerCollision e (length (pcs s)) s1"
    using fresh_handle_facts(3,8) [OF assms(1), of e] s1 assms(3)
    by (simp add: offerCollision_def new_pc_def)
  show ?thesis
    using assms s1 nc
    by (auto simp add: on_offer_def offer_fails_def Let_def split: option.split)
qed

lemma handleDisconnect_pcs:
  "peerConnectionRef s = Some i \<Longrightarrow> pcs (handleDisconnect s) = (pcs s)[i := close_pc (pcs s ! i)]"
  by (simp add: handleDisconnect_def cleanupPeerConnection_def setConnectionState_def
      setStreams_def upd_pc_def)

text \<open>
  Claim C6 as stated fails: the \<open>catch\<close> branches of the \<open>offer\<close> and \<open>answer\<close> handlers
  call \<open>handleDisconnect\<close>, which closes and drops the handle. On the live handle of
  \<open>paired\<close>, a rejected remote offer and a rejected answer each leave no handle.
\<close>

theorem negotiation_failure_counterexample:
  "peerConnectionRef paired = Some 0 \<and> \<not> pc_closed (pcs paired ! 0)
   \<and> peerConnectionRef (step (Offer 0 ''peer'' ''offer'' remote_rejected) paired) = None
   \<and> pc_closed (pcs (step (Offer 0 ''peer'' ''offer'' remote_rejected) paired) ! 0)
   \<and> status (connectionState (step (Offer 0 ''peer'' ''offer'' remote_rejected) paired)) = ''Disconnected''
   \<and> error (connectionState (step (Offer 0 ''peer'' ''offer'' remote_rejected) paired)) = None
   \<and> peerConnectionRef (step (Answer 0 ''answer'' False) paired) = None
   \<and> pc_closed (pcs (step (Answer 0 ''answer'' False) paired) ! 0)"
  by (simp add: paired_eq remote_rejected_def on_socket_def on_offer_def on_answer_def
      offerCollision_def new_pc_def handleDisconnect_def cleanupPeerConnection_def
      setConnectionState_def setStreams_def upd_pc_def close_pc_def)

text \<open>
  Claim C6 as amended. A failure of a browser call while handling an \<open>offer\<close> (the
  remote description, the answer, or the local description) or an \<open>answer\<close> is caught
  and handled by \<open>handleDisconnect\<close>: the handle is closed and dropped, the remote
  stream is cleared, \<open>isConnected\<close>, \<open>isWaiting\<close> and \<open>isInitiator\<close> become false, the
  status becomes "Disconnected", the error text stays as it was and nothing is emitted;
  the local stream and its tracks are untouched. This holds for a handle that was
  already there and for one the \<open>offer\<close> handler had to build first: that new
  connection is closed again and the earlier connections are as they were. A failure
  inside the renegotiation trigger, by contrast, leaves the handle intact: it sets the
  error text "Connection negotiation failed" and changes neither the handle nor the
  connections.
\<close>

theorem negotiation_failure_disconnects:
  "(peerConnectionRef s = Some i \<and> i < length (pcs s) \<and> \<not> offerCollision e i s \<and> offer_fails oc \<longrightarrow>
      peerConnectionRef (on_offer k e peerId offer oc s) = None
      \<and> pc_closed (pcs (on_offer k e peerId offer oc s) ! i)
      \<and> remoteStream (streams (on_offer k e peerId offer oc s)) = None
      \<and> connectionState (on_offer k e peerId offer oc s) =
          (connectionState s)\<lparr>isConnected := False, isWaiting := False,
                                status := ''Disconnected'', isInitiator := False\<rparr>
      \<and> emitted (on_offer k e peerId offer oc s) = emitted s
      \<and> localStream (streams (on_offer k e peerId offer oc s)) = localStream (streams s)
      \<and> tracks (on_offer k e peerId offer oc s) = tracks s)
   \<and> (peerConnectionRef s = None \<and> construct_ok oc \<and> \<not> makingOfferRef s \<and> offer_fails oc \<longrightarrow>
      peerConnectionRef (on_offer k e peerId offer oc s) = None
      \<and> length (pcs (on_offer k e peerId offer oc s)) = Suc (length (pcs s))
      \<and> pc_closed (pcs (on_offer k e peerId offer oc s) ! length (pcs s))
      \<and> take (length (pcs s)) (pcs (on_offer k e peerId offer oc s)) = pcs s
      \<and> remoteStream (streams (on_offer k e peerId offer oc s)) = None
      \<and> connectionState (on_offer k e peerId offer oc s) =
          (connectionState s)\<lparr>isConnected := False, isWaiting := False,
                                status := ''Disconnected'', isInitiator := False\<rparr>
      \<and> emitted (on_offer k e peerId offer oc s) = emitted s
      \<and> localStream (streams (on_offer k e peerId offer oc s)) = localStream (streams s)
      \<and> tracks (on_offer k e peerId offer oc s) = tracks s)
   \<and> (peerConnectionRef s = Some i \<and> i < length (pcs s) \<longrightarrow>
      on_answer answer False s = handleDisconnect s
      \<and> peerConnectionRef (on_answer answer False s) = None
      \<and> pc_closed (pcs (on_answer answer False s) ! i)
      \<and> connectionState (on_answer answer False s) =
          (connectionState s)\<lparr>isConnected := False, isWaiting := False,
                                status := ''Disconnected'', isInitiator := False\<rparr>
      \<and> emitted (on_answer answer False s) = emitted s)
   \<and> peerConnectionRef (negotiation_resume p None s) = peerConnectionRef s
   \<and> pcs (negotiation_resume p None s) = pcs s
   \<and> emitted (negotiation_resume p None s) = emitted s
   \<and> connectionState (negotiation_resume p None s) =
       (connectionState s)\<lparr>error := Some ''Connection negotiation failed''\<rparr>"
proof -
  have offer: "peerConnectionRef (on_offer k e peerId offer oc s) = None
      \<and> pc_closed (pcs (on_offer k e peerId offer oc s) ! i)
      \<and> remoteStream (streams (on_offer k e peerId offer oc s)) = None
      \<and> connectionState (on_offer k e peerId offer oc s) =
          (connectionState s)\<lparr>isConnected := False, isWaiting := False,
                                status := ''Disconnected'', isInitiator := False\<rparr>
      \<and> emitted (on_offer k e peerId offer oc s) = emitted s
      \<and> localStream (streams (on_offer k e peerId offer oc s)) = localStream (streams s)
      \<and> tracks (on_offer k e peerId offer oc s) = tracks s"
    if h: "peerConnectionRef s = Some i" "i < length (pcs s)" "\<not> offerCollision e i s" "offer_fails oc"
  proof -
    let ?s2 = "upd_pc i (\<lambda>pc. pc\<lparr>remoteDescription := Some offer,
                                   signalingState := HaveRemoteOffer\<rparr>) s"
    have s2: "peerConnectionRef ?s2 = Some i" "i < length (pcs ?s2)"
      "connectionState ?s2 = connectionState s" "emitted ?s2 = emitted s"
      "streams ?s2 = streams s" "tracks ?s2 = tracks s"
      using h by (simp_all add: upd_pc_def)
    from on_offer_failure [OF h(1) h(3) h(4), of k peerId offer]
    show ?thesis
    proof
      assume "on_offer k e peerId offer oc s = handleDisconnect s"
      then show ?thesis
        using handleDisconnect_effect [of s] handleDisconnect_closes [OF h(1) h(2)] by simp
    next
      assume "on_offer k e peerId offer oc s = handleDisconnect ?s2"
      then show ?thesis
        using handleDisconnect_effect [of ?s2] handleDisconnect_closes [OF s2(1) s2(2)] s2
        by simp
    qed
  qed
  have fresh: "peerConnectionRef (on_offer k e peerId offer oc s) = None
      \<and> length (pcs (on_offer k e peerId offer oc s)) = Suc (length (pcs s))
      \<and> pc_closed (pcs (on_offer k e peerId offer oc s) ! length (pcs s))
      \<and> take (length (pcs s)) (pcs (on_offer k e peerId offer oc s)) = pcs s
      \<and> remoteStream (streams (on_offer k e peerId offer oc s)) = None
      \<and> connectionState (on_offer k e peerId offer oc s) =
          (connectionState s)\<lparr>isConnected := False, isWaiting := False,
                                status := ''Disconnected'', isInitiator := False\<rparr>
      \<and> emitted (on_offer k e peerId offer oc s) = emitted s
      \<and> localStream (streams (on_offer k e peerId offer oc s)) = localStream (streams s)
      \<and> tracks (on_offer k e peerId offer oc s) = tracks s"
    if h: "peerConnectionRef s = None" "construct_ok oc" "\<not> makingOfferRef s" "offer_fails oc"
  proof -
    let ?n = "length (pcs s)"
    let ?s1 = "fst (createPeerConnection e True s)"
    let ?s2 = "upd_pc ?n (\<lambda>pc. pc\<lparr>remoteDescription := Some offer,
                                    signalingState := HaveRemoteOffer\<rparr>) ?s1"
    note f = fresh_handle_facts [OF h(1), of e]
    have s1: "peerConnectionRef ?s1 = Some ?n" "?n < length (pcs ?s1)"
      "length (pcs ?s1) = Suc ?n" "take ?n (pcs ?s1) = pcs s"
      using f by simp_all
    have s2: "peerConnectionRef ?s2 = Some ?n" "?n < length (pcs ?s2)"
      "length (pcs ?s2) = Suc ?n" "take ?n (pcs ?s2) = pcs s"
      "connectionState ?s2 = connectionState s" "emitted ?s2 = emitted s"
      "localStream (streams ?s2) = localStream (streams s)" "tracks ?s2 = tracks s"
      using f by (simp_all add: upd_pc_def)
    have res: "peerConnectionRef (handleDisconnect t) = None
        \<and> length (pcs (handleDisconnect t)) = Suc ?n
        \<and> pc_closed (pcs (handleDisconnect t) ! ?n)
        \<and> take ?n (pcs (handleDisconnect t)) = pcs s
        \<and> remoteStream (streams (handleDisconnect t)) = None
        \<and> connectionState (handleDisconnect t) =
            (connectionState s)\<lparr>isConnected := False, isWaiting := False,
                                  status := ''Disconnected'', isInitiator := False\<rparr>
        \<and> emitted (handleDisconnect t) = emitted s
        \<and> localStream (streams (handleDisconnect t)) = localStream (streams s)
        \<and> tracks (handleDisconnect t) = tracks s"
      if t: "peerConnectionRef t = Some ?n" "?n < length (pcs t)" "length (pcs t) = Suc ?n"
        "take ?n (pcs t) = pcs s" "connectionState t = connectionState s" "emitted t = emitted s"
        "localStream (streams t) = localStream (streams s)" "tracks t = tracks s" for t
      using handleDisconnect_effect [of t] handleDisconnect_closes [OF t(1) t(2)]
        handleDisconnect_pcs [OF t(1)] t
      by simp
    from on_offer_failure_fresh [OF h, of k e peerId offer]
    show ?thesis
    proof
      assume "on_offer k e peerId offer oc s = handleDisconnect ?s1"
      then show ?thesis
        using res [of ?s1] s1 f by simp
    next
      assume "on_offer k e peerId offer oc s = handleDisconnect ?s2"
      then show ?thesis
        using res [OF s2] by simp
    qed
  qed
  have answer: "on_answer answer False s = handleDisconnect s
      \<and> peerConnectionRef (on_answer answer False s) = None
      \<and> pc_closed (pcs (on_answer answer False s) ! i)
      \<and> connectionState (on_answer answer False s) =
          (connectionState s)\<lparr>isConnected := False, isWaiting := False,
                                status := ''Disconnected'', isInitiator := False\<rparr>
      \<and> emitted (on_answer answer False s) = emitted s"
    if h: "peerConnectionRef s = Some i" "i < length (pcs s)"
  proof -
    have "on_answer answer False s = handleDisconnect s"
      using h by (simp add: on_answer_def)
    then show ?thesis
      using handleDisconnect_effect [of s] handleDisconnect_closes [OF h] by simp
  qed
  have trigger: "peerConnectionRef (negotiation_resume p None s) = peerConnectionRef s
      \<and> pcs (negotiation_resume p None s) = pcs s
      \<and> emitted (negotiation_resume p None s) = emitted s
      \<and> connectionState (negotiation_resume p None s) =
          (connectionState s)\<lparr>error := Some ''Connection negotiation failed''\<rparr>"
    by (simp add: negotiation_resume_def negotiation_finally_def setConnectionState_def)
  from offer fresh answer trigger show ?thesis
    by blast
qed

text \<open>A rejected remote offer on the open handle of \<open>paired\<close>; a rejected remote offer, a
  failed \<open>createAnswer\<close> and a rejected local description on \<open>mounted\<close>, where the
  handler has to build the connection first; and a rejected answer on \<open>paired\<close>: each
  time no handle is left and the connection is closed.\<close>

theorem negotiation_failure_disconnects_witness:
  "peerConnectionRef (on_offer 0 (sock_env (sockets paired ! 0)) ''peer'' ''offer'' remote_rejected paired) = None
   \<and> pc_closed (pcs (on_offer 0 (sock_env (sockets paired ! 0)) ''peer'' ''offer'' remote_rejected paired) ! 0)
   \<and> peerConnectionRef (on_offer 0 (sock_env (sockets mounted ! 0)) ''peer'' ''offer'' remote_rejected mounted) = None
   \<and> pc_closed (pcs (on_offer 0 (sock_env (sockets mounted ! 0)) ''peer'' ''offer'' remote_rejected mounted) ! 0)
   \<and> pc_closed (pcs (on_offer 0 (sock_env (sockets mounted ! 0)) ''peer'' ''offer'' no_answer mounted) ! 0)
   \<and> pc_closed (pcs (on_offer 0 (sock_env (sockets mounted ! 0)) ''peer'' ''offer'' local_rejected mounted) ! 0)
   \<and> peerConnectionRef (on_answer ''answer'' False paired) = None
   \<and> pc_closed (pcs (on_answer ''answer'' False paired) ! 0)"
proof -
  have p: "peerConnectionRef paired = Some 0 \<and> 0 < length (pcs paired)
           \<and> \<not> offerCollision (sock_env (sockets paired ! 0)) 0 paired"
    by (simp add: paired_eq offerCollision_def new_pc_def)
  have o: "offer_fails remote_rejected \<and> construct_ok remote_rejected
           \<and> offer_fails no_answer \<and> construct_ok no_answer
           \<and> offer_fails local_rejected \<and> construct_ok local_rejected"
    by (simp add: offer_fails_def remote_rejected_def no_answer_def local_rejected_def)
  have m: "peerConnectionRef mounted = None \<and> \<not> makingOfferRef mounted \<and> length (pcs mounted) = 0"
    by (simp add: state_defs)
  note T = negotiation_failure_disconnects
  have a1: "peerConnectionRef (on_offer 0 (sock_env (sockets paired ! 0)) ''peer'' ''offer'' remote_rejected paired) = None
     \<and> pc_closed (pcs (on_offer 0 (sock_env (sockets paired ! 0)) ''peer'' ''offer'' remote_rejected paired) ! 0)
     \<and> peerConnectionRef (on_answer ''answer'' False paired) = None
     \<and> pc_closed (pcs (on_answer ''answer'' False paired) ! 0)"
    using T [where s = paired and i = 0 and e = "sock_env (sockets paired ! 0)"
        and oc = remote_rejected and k = 0 and peerId = "''peer''" and offer = "''offer''"
        and answer = "''answer''"] p o
    by blast
  have a2: "peerConnectionRef (on_offer 0 (sock_env (sockets mounted ! 0)) ''peer'' ''offer'' oc mounted) = None
     \<and> pc_closed (pcs (on_offer 0 (sock_env (sockets mounted ! 0)) ''peer'' ''offer'' oc mounted)
          ! length (pcs mounted))"
    if "offer_fails oc" "construct_ok oc" for oc
    using T [where s = mounted and e = "sock_env (sockets mounted ! 0)"
        and oc = oc and k = 0 and peerId = "''peer''" and offer = "''offer''"] m that
    by blast
  from a1 a2 [of remote_rejected] a2 [of no_answer] a2 [of local_rejected] o m show ?thesis
    by simp
qed

subsection \<open>Find-partner requests\<close>

text \<open>
  Claim C8 as stated fails. \<open>findPartner\<close> has no guard of its own; the only gate is the
  button's \<open>disabled={connectionState.isWaiting}\<close>. In the state \<open>negotiating\<close> the
  renegotiation handler is waiting on \<open>setLocalDescription\<close> (both flags are set) and
  the user is not waiting; a click is not rejected: it closes the handle and emits
  \<open>find-match\<close>.
\<close>

theorem find_partner_mid_negotiation_counterexample:
  "isNegotiatingRef negotiating \<and> makingOfferRef negotiating
   \<and> peerConnectionRef negotiating = Some 1
   \<and> emitted (step ClickFindPartner negotiating) = emitted negotiating @ [(1, EmitFindMatch)]
   \<and> peerConnectionRef (step ClickFindPartner negotiating) = None
   \<and> pc_closed (pcs (step ClickFindPartner negotiating) ! 1)
   \<and> step ClickFindPartner negotiating \<noteq> negotiating"
proof -
  have "peerConnectionRef (step ClickFindPartner negotiating) = None
        \<and> emitted (step ClickFindPartner negotiating) = emitted negotiating @ [(1, EmitFindMatch)]
        \<and> pc_closed (pcs (step ClickFindPartner negotiating) ! 1)"
    by (simp add: negotiating_eq initiator_paired_eq state_defs)
  moreover have "isNegotiatingRef negotiating \<and> makingOfferRef negotiating
                 \<and> peerConnectionRef negotiating = Some 1"
    by (simp add: negotiating_eq initiator_paired_eq)
  ultimately show ?thesis
    by auto
qed

text \<open>
  Claim C8 as amended. A click on the find-partner button while \<open>isWaiting\<close> is true is
  a no-op (the button is disabled): the state is unchanged, so nothing is emitted. While
  \<open>isWaiting\<close> is false the request goes through, whether or not a negotiation is in
  progress: on a connected socket it closes the current handle (the connection the ref
  held is closed, every other connection is as it was, and the ref is null), clears the
  remote stream, sets \<open>isWaiting\<close> with \<open>isConnected\<close> false and the status
  "Looking for a partner...", and emits \<open>find-match\<close>; the local stream and its tracks
  are untouched.
\<close>

theorem find_partner_rejected_only_while_waiting:
  "(isWaiting (connectionState s) \<longrightarrow> step ClickFindPartner s = s)
   \<and> (\<not> isWaiting (connectionState s) \<and> socket_connected s \<and> socketRef s = Some k \<longrightarrow>
        emitted (step ClickFindPartner s) = emitted s @ [(k, EmitFindMatch)]
        \<and> peerConnectionRef (step ClickFindPartner s) = None
        \<and> remoteStream (streams (step ClickFindPartner s)) = None
        \<and> localStream (streams (step ClickFindPartner s)) = localStream (streams s)
        \<and> tracks (step ClickFindPartner s) = tracks s
        \<and> connectionState (step ClickFindPartner s) =
            (connectionState s)\<lparr>isConnected := False, isWaiting := True,
                                  status := ''Looking for a partner...''\<rparr>)
   \<and> (\<not> isWaiting (connectionState s) \<and> socket_connected s \<and> peerConnectionRef s = Some i
       \<and> i < length (pcs s) \<longrightarrow>
        pc_closed (pcs (step ClickFindPartner s) ! i)
        \<and> signalingState (pcs (step ClickFindPartner s) ! i) = SigClosed
        \<and> pcs (step ClickFindPartner s) = (pcs s)[i := close_pc (pcs s ! i)])
   \<and> (\<not> isWaiting (connectionState s) \<and> socket_connected s \<and> peerConnectionRef s = None \<longrightarrow>
        pcs (step ClickFindPartner s) = pcs s)"
proof -
  have main: "emitted (step ClickFindPartner s) = emitted s @ [(k, EmitFindMatch)]
        \<and> peerConnectionRef (step ClickFindPartner s) = None
        \<and> remoteStream (streams (step ClickFindPartner s)) = None
        \<and> localStream (streams (step ClickFindPartner s)) = localStream (streams s)
        \<and> tracks (step ClickFindPartner s) = tracks s
        \<and> connectionState (step ClickFindPartner s) =
            (connectionState s)\<lparr>isConnected := False, isWaiting := True,
                                  status := ''Looking for a partner...''\<rparr>"
    if "\<not> isWaiting (connectionState s)" "socket_connected s" "socketRef s = Some k"
    using that
    by (simp add: click_findPartner_def findPartner_def cleanupPeerConnection_def
        setConnectionState_def setStreams_def upd_pc_def emit_on_def Let_def split: option.split)
  have closes: "pc_closed (pcs (step ClickFindPartner s) ! i)
        \<and> signalingState (pcs (step ClickFindPartner s) ! i) = SigClosed
        \<and> pcs (step ClickFindPartner s) = (pcs s)[i := close_pc (pcs s ! i)]"
    if "\<not> isWaiting (connectionState s)" "socket_connected s" "peerConnectionRef s = Some i"
      "i < length (pcs s)"
    using that
    by (simp add: click_findPartner_def findPartner_def cleanupPeerConnection_def
        setConnectionState_def setStreams_def upd_pc_def emit_on_def close_pc_def Let_def
        split: option.split)
  have keeps: "pcs (step ClickFindPartner s) = pcs s"
    if "\<not> isWaiting (connectionState s)" "socket_connected s" "peerConnectionRef s = None"
    using that
    by (simp add: click_findPartner_def findPartner_def cleanupPeerConnection_def
        setConnectionState_def setStreams_def emit_on_def Let_def split: option.split)
  have noop: "step ClickFindPartner s = s" if "isWaiting (connectionState s)"
    using that by (simp add: click_findPartner_def)
  from main closes keeps noop show ?thesis
    by blast
qed

text \<open>On \<open>paired\<close> (not waiting, socket connected, handle 0 open): the click closes
  connection 0, drops the ref and emits \<open>find-match\<close>; a second click, now while
  waiting, changes nothing, and with no handle left the connections stay as they are.\<close>

theorem find_partner_rejected_only_while_waiting_witness:
  "step ClickFindPartner (step ClickFindPartner paired) = step ClickFindPartner paired
   \<and> emitted (step ClickFindPartner paired) = [(0, EmitFindMatch), (0, EmitFindMatch)]
   \<and> peerConnectionRef (step ClickFindPartner paired) = None
   \<and> pc_closed (pcs paired ! 0) = False
   \<and> pc_closed (pcs (step ClickFindPartner paired) ! 0)
   \<and> pcs (step ClickFindPartner (step Disconnect paired)) = pcs (step Disconnect paired)"
proof -
  let ?w = "step ClickFindPartner paired"
  let ?d = "step Disconnect paired"
  have p: "\<not> isWaiting (connectionState paired) \<and> socket_connected paired
           \<and> socketRef paired = Some 0 \<and> emitted paired = [(0, EmitFindMatch)]
           \<and> peerConnectionRef paired = Some 0 \<and> 0 < length (pcs paired)
           \<and> pc_closed (pcs paired ! 0) = False"
    by (simp add: paired_eq socket_connected_def new_pc_def)
  have a1: "emitted ?w = emitted paired @ [(0, EmitFindMatch)]
            \<and> peerConnectionRef ?w = None \<and> isWaiting (connectionState ?w)"
  proof -
    have "emitted ?w = emitted paired @ [(0, EmitFindMatch)] \<and> peerConnectionRef ?w = None
          \<and> connectionState ?w =
              (connectionState paired)\<lparr>isConnected := False, isWaiting := True,
                                       status := ''Looking for a partner...''\<rparr>"
      using find_partner_rejected_only_while_waiting [where s = paired and k = 0] p
      by blast
    then show ?thesis
      by simp
  qed
  then have a2: "step ClickFindPartner ?w = ?w"
    using find_partner_rejected_only_while_waiting [where s = "?w"]
    by blast
  have a3: "pc_closed (pcs ?w ! 0)"
    using find_partner_rejected_only_while_waiting [where s = paired and i = 0] p
    by blast
  have d: "\<not> isWaiting (connectionState ?d) \<and> socket_connected ?d \<and> peerConnectionRef ?d = None"
    by (simp add: paired_eq socket_connected_def handleDisconnect_def cleanupPeerConnection_def
        setConnectionState_def setStreams_def upd_pc_def)
  have a4: "pcs (step ClickFindPartner ?d) = pcs ?d"
    using find_partner_rejected_only_while_waiting [where s = "?d"] d
    by blast
  from a1 a2 a3 a4 p show ?thesis
    by simp
qed

subsection \<open>The renegotiation trigger\<close>

text \<open>
  The renegotiation trigger. A trigger that finds \<open>isNegotiatingRef\<close> set, or whose
  connection was built by a render without the initiator role, emits nothing, suspends
  nothing, and leaves both flags false. Otherwise it sets both flags and waits for
  \<open>setLocalDescription\<close>. When that settles both flags are false again; on success
  exactly one offer, carrying the new local description, is emitted on the current
  socket, on failure nothing is emitted.
\<close>

theorem negotiation_trigger_paths:
  "(isNegotiatingRef s \<or> \<not> cap_isInitiator (pc_env (pcs s ! p)) \<longrightarrow>
      emitted (onnegotiationneeded p s) = emitted s
      \<and> suspended (onnegotiationneeded p s) = suspended s
      \<and> pcs (onnegotiationneeded p s) = pcs s
      \<and> isNegotiatingRef (onnegotiationneeded p s) = False
      \<and> makingOfferRef (onnegotiationneeded p s) = False)
   \<and> (\<not> isNegotiatingRef s \<and> cap_isInitiator (pc_env (pcs s ! p)) \<longrightarrow>
      emitted (onnegotiationneeded p s) = emitted s
      \<and> suspended (onnegotiationneeded p s) = suspended s @ [p]
      \<and> isNegotiatingRef (onnegotiationneeded p s)
      \<and> makingOfferRef (onnegotiationneeded p s))
   \<and> isNegotiatingRef (negotiation_resume p r s) = False
   \<and> makingOfferRef (negotiation_resume p r s) = False
   \<and> emitted (negotiation_resume p None s) = emitted s
   \<and> (socketRef s = Some k \<and> p < length (pcs s) \<longrightarrow>
      emitted (negotiation_resume p (Some d) s) = emitted s @ [(k, EmitOffer k (Some d))]
      \<and> localDescription (pcs (negotiation_resume p (Some d) s) ! p) = Some d)"
  by (simp add: onnegotiationneeded_def negotiation_finally_def negotiation_resume_def
      setConnectionState_def upd_pc_def emit_on_def implicit_local_def Let_def
      split: option.split)

theorem negotiation_trigger_paths_witness:
  "emitted (onnegotiationneeded 1 negotiating) = emitted negotiating
   \<and> isNegotiatingRef (onnegotiationneeded 1 negotiating) = False
   \<and> emitted (onnegotiationneeded 0 paired) = emitted paired
   \<and> suspended (onnegotiationneeded 1 initiator_paired) = [1]
   \<and> emitted (negotiation_resume 1 (Some ''offerA'') negotiating)
       = emitted negotiating @ [(1, EmitOffer 1 (Some ''offerA''))]"
proof -
  have n: "isNegotiatingRef negotiating \<and> socketRef negotiating = Some 1
           \<and> 1 < length (pcs negotiating)"
    by (simp add: negotiating_eq initiator_paired_eq)
  have p: "\<not> cap_isInitiator (pc_env (pcs paired ! 0))"
    by (simp add: paired_eq new_pc_def)
  have i: "\<not> isNegotiatingRef initiator_paired \<and> cap_isInitiator (pc_env (pcs initiator_paired ! 1))
           \<and> suspended initiator_paired = []"
    by (simp add: initiator_paired_eq new_pc_def)
  have a1: "emitted (onnegotiationneeded 1 negotiating) = emitted negotiating
            \<and> isNegotiatingRef (onnegotiationneeded 1 negotiating) = False"
    using negotiation_trigger_paths [where s = negotiating and p = 1] n by blast
  have a2: "emitted (onnegotiationneeded 0 paired) = emitted paired"
    using negotiation_trigger_paths [where s = paired and p = 0] p by blast
  have a3: "suspended (onnegotiationneeded 1 initiator_paired) = suspended initiator_paired @ [1]"
    using negotiation_trigger_paths [where s = initiator_paired and p = 1] i by blast
  have a4: "emitted (negotiation_resume 1 (Some ''offerA'') negotiating)
       = emitted negotiating @ [(1, EmitOffer 1 (Some ''offerA''))]"
    using negotiation_trigger_paths [where s = negotiating and p = 1 and k = 1 and d = "''offerA''"] n
    by blast
  from a1 a2 a3 a4 i show ?thesis
    by simp
qed

text \<open>
  Claim C2 says that of every burst of renegotiation triggers that arrive during one
  pending negotiation exactly one emits an offer and the later ones return without
  emitting, that a trigger without the initiator role emits no offer, and that every
  exit path of the handler leaves both flags false. The first part does not hold of
  the code. The guard's early \<open>return\<close> sits inside the \<open>try\<close>, so the \<open>finally\<close>
  block runs for it too and clears both flags while the first handler is still waiting
  on \<open>setLocalDescription\<close>. On the initiator's handle: the first trigger takes the
  flag, the second returns early and clears it, the third finds it clear and starts a
  negotiation of its own; when both settle, two offers have been emitted.
\<close>

theorem rapid_triggers_two_offers:
  "cap_isInitiator (pc_env (pcs initiator_paired ! 1))
   \<and> isNegotiatingRef (run [NegotiationNeeded 1] initiator_paired)
   \<and> isNegotiatingRef (run [NegotiationNeeded 1, NegotiationNeeded 1] initiator_paired) = False
   \<and> makingOfferRef (run [NegotiationNeeded 1, NegotiationNeeded 1] initiator_paired) = False
   \<and> suspended (run [NegotiationNeeded 1, NegotiationNeeded 1] initiator_paired) = [1]
   \<and> suspended (run [NegotiationNeeded 1, NegotiationNeeded 1, NegotiationNeeded 1] initiator_paired)
       = [1, 1]
   \<and> emitted (run rapid_triggers initiator_paired)
       = emitted initiator_paired
           @ [(1, EmitOffer 1 (Some ''offer1'')), (1, EmitOffer 1 (Some ''offer2''))]"
  by (simp add: rapid_triggers_def initiator_paired_eq on_pc_def onnegotiationneeded_def
      negotiation_finally_def settle_negotiation_def negotiation_resume_def implicit_local_def
      upd_pc_def emit_on_def new_pc_def close_pc_def)

subsection \<open>The ICE connection state handler\<close>

text \<open>
  The ICE handler. On \<open>failed\<close>, when the \<open>reconnectAttempts\<close> captured by the
  connection's render is below the ceiling, the live counter goes up by one, the
  handle stays, and a timer with delay 2000 that calls \<open>findPartner\<close> of that render
  becomes the pending reconnect timer; when the captured value has reached the ceiling
  the handle is dropped, the error text is set and no timer is made. On \<open>connected\<close>
  the counter is reset to 0 and the error cleared; on \<open>disconnected\<close> only the status
  text changes.
\<close>

theorem ice_state_paths:
  "(iceConnectionState (pcs s ! p) = IceFailed
      \<and> cap_reconnectAttempts (pc_env (pcs s ! p)) < MAX_RECONNECT_ATTEMPTS \<longrightarrow>
      reconnectAttempts (connectionState (oniceconnectionstatechange p s))
        = reconnectAttempts (connectionState s) + 1
      \<and> reconnectTimeoutRef (oniceconnectionstatechange p s) = Some (length (timers s))
      \<and> timers (oniceconnectionstatechange p s) ! length (timers s)
          = \<lparr>delay = 2000, timer_env = pc_env (pcs s ! p), timer_cleared = False, timer_fired = False\<rparr>
      \<and> peerConnectionRef (oniceconnectionstatechange p s) = peerConnectionRef s
      \<and> pcs (oniceconnectionstatechange p s) = pcs s
      \<and> emitted (oniceconnectionstatechange p s) = emitted s)
   \<and> (iceConnectionState (pcs s ! p) = IceFailed
      \<and> MAX_RECONNECT_ATTEMPTS \<le> cap_reconnectAttempts (pc_env (pcs s ! p)) \<longrightarrow>
      oniceconnectionstatechange p s =
        setConnectionState (\<lambda>prev. prev\<lparr>error := Some ''Connection failed after multiple attempts''\<rparr>)
          (handleDisconnect s)
      \<and> peerConnectionRef (oniceconnectionstatechange p s) = None
      \<and> error (connectionState (oniceconnectionstatechange p s))
          = Some ''Connection failed after multiple attempts''
      \<and> reconnectAttempts (connectionState (oniceconnectionstatechange p s))
          = reconnectAttempts (connectionState s)
      \<and> timers (oniceconnectionstatechange p s) = timers s
      \<and> reconnectTimeoutRef (oniceconnectionstatechange p s) = reconnectTimeoutRef s
      \<and> emitted (oniceconnectionstatechange p s) = emitted s)
   \<and> (iceConnectionState (pcs s ! p) = IceConnected \<longrightarrow>
      connectionState (oniceconnectionstatechange p s)
        = (connectionState s)\<lparr>reconnectAttempts := 0, error := None, status := ''Connected to partner''\<rparr>)
   \<and> (iceConnectionState (pcs s ! p) = IceDisconnected \<longrightarrow>
      connectionState (oniceconnectionstatechange p s)
        = (connectionState s)\<lparr>status := ''Connection interrupted. Attempting to restore...''\<rparr>)"
proof -
  let ?s' = "oniceconnectionstatechange p s"
  have retry: "reconnectAttempts (connectionState ?s') = reconnectAttempts (connectionState s) + 1
      \<and> reconnectTimeoutRef ?s' = Some (length (timers s))
      \<and> timers ?s' ! length (timers s)
          = \<lparr>delay = 2000, timer_env = pc_env (pcs s ! p), timer_cleared = False, timer_fired = False\<rparr>
      \<and> peerConnectionRef ?s' = peerConnectionRef s
      \<and> pcs ?s' = pcs s \<and> emitted ?s' = emitted s"
    if "iceConnectionState (pcs s ! p) = IceFailed"
      "cap_reconnectAttempts (pc_env (pcs s ! p)) < MAX_RECONNECT_ATTEMPTS"
    using that
    by (simp add: oniceconnectionstatechange_def Let_def schedule_reconnect_def clearTimeout_def
        setConnectionState_def RECONNECT_DELAY_def nth_append split: option.split)
  have final: "?s' =
        setConnectionState (\<lambda>prev. prev\<lparr>error := Some ''Connection failed after multiple attempts''\<rparr>)
          (handleDisconnect s)"
    if "iceConnectionState (pcs s ! p) = IceFailed"
      "MAX_RECONNECT_ATTEMPTS \<le> cap_reconnectAttempts (pc_env (pcs s ! p))"
    using that by (simp add: oniceconnectionstatechange_def Let_def)
  have final': "peerConnectionRef ?s' = None
      \<and> error (connectionState ?s') = Some ''Connection failed after multiple attempts''
      \<and> reconnectAttempts (connectionState ?s') = reconnectAttempts (connectionState s)
      \<and> timers ?s' = timers s
      \<and> reconnectTimeoutRef ?s' = reconnectTimeoutRef s
      \<and> emitted ?s' = emitted s"
    if "iceConnectionState (pcs s ! p) = IceFailed"
      "MAX_RECONNECT_ATTEMPTS \<le> cap_reconnectAttempts (pc_env (pcs s ! p))"
    unfolding final [OF that]
    by (simp add: setConnectionState_def handleDisconnect_def cleanupPeerConnection_def
        setStreams_def upd_pc_def split: option.split)
  have conn: "connectionState ?s'
        = (connectionState s)\<lparr>reconnectAttempts := 0, error := None, status := ''Connected to partner''\<rparr>"
    if "iceConnectionState (pcs s ! p) = IceConnected"
    using that by (simp add: oniceconnectionstatechange_def Let_def setConnectionState_def)
  have disc: "connectionState ?s'
        = (connectionState s)\<lparr>status := ''Connection interrupted. Attempting to restore...''\<rparr>"
    if "iceConnectionState (pcs s ! p) = IceDisconnected"
    using that by (simp add: oniceconnectionstatechange_def Let_def setConnectionState_def)
  from retry final final' conn disc show ?thesis
    by blast
qed

text \<open>A fresh connection that fails while its render had counted no attempt is retried;
  one whose render had counted three ends the session; a connection that becomes
  connected resets the counter.\<close>

theorem ice_state_paths_witness:
  "reconnectAttempts (connectionState
      (oniceconnectionstatechange 0 (upd_pc 0 (\<lambda>pc. pc\<lparr>iceConnectionState := IceFailed\<rparr>) paired))) = 1
   \<and> peerConnectionRef (oniceconnectionstatechange 0 exhausted) = None
   \<and> reconnectAttempts (connectionState
      (oniceconnectionstatechange 3
         (upd_pc 3 (\<lambda>pc. pc\<lparr>iceConnectionState := IceConnected\<rparr>) three_failures))) = 0
   \<and> status (connectionState
      (oniceconnectionstatechange 0 (upd_pc 0 (\<lambda>pc. pc\<lparr>iceConnectionState := IceDisconnected\<rparr>) paired)))
      = ''Connection interrupted. Attempting to restore...''"
proof -
  let ?i = "upd_pc 0 (\<lambda>pc. pc\<lparr>iceConnectionState := IceDisconnected\<rparr>) paired"
  have i: "iceConnectionState (pcs ?i ! 0) = IceDisconnected"
    by (simp add: paired_eq upd_pc_def)
  have a4: "connectionState (oniceconnectionstatechange 0 ?i)
            = (connectionState ?i)\<lparr>status := ''Connection interrupted. Attempting to restore...''\<rparr>"
    using ice_state_paths [where s = "?i" and p = 0] i by blast
  let ?f = "upd_pc 0 (\<lambda>pc. pc\<lparr>iceConnectionState := IceFailed\<rparr>) paired"
  let ?c = "upd_pc 3 (\<lambda>pc. pc\<lparr>iceConnectionState := IceConnected\<rparr>) three_failures"
  have f: "iceConnectionState (pcs ?f ! 0) = IceFailed
           \<and> cap_reconnectAttempts (pc_env (pcs ?f ! 0)) < MAX_RECONNECT_ATTEMPTS
           \<and> reconnectAttempts (connectionState ?f) = 0"
    by (simp add: paired_eq upd_pc_def new_pc_def MAX_RECONNECT_ATTEMPTS_def)
  have x: "iceConnectionState (pcs exhausted ! 0) = IceFailed
           \<and> MAX_RECONNECT_ATTEMPTS \<le> cap_reconnectAttempts (pc_env (pcs exhausted ! 0))"
    by (simp add: exhausted_def state_defs MAX_RECONNECT_ATTEMPTS_def)
  have c: "iceConnectionState (pcs ?c ! 3) = IceConnected"
    by (simp add: upd_pc_def three_failures_facts)
  have a1: "reconnectAttempts (connectionState (oniceconnectionstatechange 0 ?f))
            = reconnectAttempts (connectionState ?f) + 1"
    using ice_state_paths [where s = "?f" and p = 0] f by blast
  have a2: "peerConnectionRef (oniceconnectionstatechange 0 exhausted) = None"
    using ice_state_paths [where s = exhausted and p = 0] x by blast
  have a3: "connectionState (oniceconnectionstatechange 3 ?c)
            = (connectionState ?c)\<lparr>reconnectAttempts := 0, error := None, status := ''Connected to partner''\<rparr>"
    using ice_state_paths [where s = "?c" and p = 3] c by blast
  from a1 a2 a3 a4 f show ?thesis
    by simp
qed

text \<open>
  Claim C4 says that an ICE failure with \<open>reconnectAttempts\<close> below the ceiling of 3
  increments the counter and schedules a re-match after 2000 ms, that with
  \<open>reconnectAttempts\<close> at 3 the session fails terminally (handle torn down, error
  surfaced, no retry), and that the counter is reset when the ICE state becomes
  connected. The second part does not hold of the code. The handler compares the
  \<open>connectionState.reconnectAttempts\<close> of the render that built the connection, not
  the live counter the updater increments. The socket handlers are registered once, by
  the mount effect, so every connection they build carries the first render's value 0.
  After three failed attempts the counter is 3; the fourth ICE failure does not end the
  session: the counter becomes 4, the handle stays open, no error is set and another
  re-match is scheduled.
\<close>

theorem retry_ceiling_not_enforced:
  "reconnectAttempts (connectionState three_failures) = 3
   \<and> peerConnectionRef three_failures = Some 3
   \<and> cap_reconnectAttempts (pc_env (pcs three_failures ! 3)) = 0
   \<and> reconnectAttempts (connectionState fourth_failure) = 4
   \<and> peerConnectionRef fourth_failure = Some 3
   \<and> pc_closed (pcs fourth_failure ! 3) = False
   \<and> error (connectionState fourth_failure) = None
   \<and> status (connectionState fourth_failure) = ''Connection failed. Attempting to reconnect...''
   \<and> reconnectTimeoutRef fourth_failure = Some 3
   \<and> delay (timers fourth_failure ! 3) = 2000
   \<and> timer_cleared (timers fourth_failure ! 3) = False"
proof -
  have "reconnectAttempts (connectionState fourth_failure) = 4
   \<and> peerConnectionRef fourth_failure = Some 3
   \<and> pc_closed (pcs fourth_failure ! 3) = False
   \<and> error (connectionState fourth_failure) = None
   \<and> status (connectionState fourth_failure) = ''Connection failed. Attempting to reconnect...''
   \<and> reconnectTimeoutRef fourth_failure = Some 3
   \<and> delay (timers fourth_failure ! 3) = 2000
   \<and> timer_cleared (timers fourth_failure ! 3) = False"
    by (simp add: fourth_failure_def on_pc_def three_failures_facts new_pc_def upd_pc_def
        oniceconnectionstatechange_def schedule_reconnect_def clearTimeout_def
        setConnectionState_def MAX_RECONNECT_ATTEMPTS_def RECONNECT_DELAY_def nth_append)
  then show ?thesis
    by (simp add: three_failures_facts new_pc_def)
qed

subsection \<open>Connected and waiting\<close>

lemma cs_simps:
  "connectionState (upd_pc p f s) = connectionState s"
  "connectionState (emit_on k e s) = connectionState s"
  "connectionState (cleanupPeerConnection s) = connectionState s"
  "connectionState (setStreams g s) = connectionState s"
  "connectionState (setControls h s) = connectionState s"
  "connectionState (setConnectionState u s) = u (connectionState s)"
  "connectionState (initializeSocket e' s) = connectionState s"
  "connectionState (negotiation_finally s) = connectionState s"
  "connectionState (set_sock_connected k b s) = connectionState s"
  by (simp_all add: upd_pc_def emit_on_def cleanupPeerConnection_def setStreams_def
      setControls_def setConnectionState_def initializeSocket_def negotiation_finally_def
      set_sock_connected_def split: option.split)

lemma exclusive_handleDisconnect: "exclusive (handleDisconnect s)"
  by (simp add: exclusive_def handleDisconnect_def cs_simps)

lemma exclusive_create:
  "exclusive (fst (createPeerConnection e ok s)) = exclusive s"
  by (simp add: exclusive_def createPeerConnection_def Let_def cs_simps)

lemma exclusive_upd [simp]:
  "exclusive (upd_pc p f s) = exclusive s"
  "exclusive (emit_on k e s) = exclusive s"
  "exclusive (negotiation_finally s) = exclusive s"
  "exclusive (setStreams g s) = exclusive s"
  "exclusive (setControls h s) = exclusive s"
  "exclusive (initializeSocket e' s) = exclusive s"
  "exclusive (set_sock_connected k b s) = exclusive s"
  by (simp_all add: exclusive_def cs_simps)

lemma exclusive_findPartner: "exclusive (findPartner e s)"  if "exclusive s"
  using that
  by (simp add: findPartner_def Let_def split: option.split)
    (simp add: exclusive_def cs_simps)

lemma exclusive_on_offer:
  assumes "exclusive s"
  shows "exclusive (on_offer k e peerId offer oc s)"
proof -
  obtain s1 pc where c: "(case peerConnectionRef s of Some i \<Rightarrow> (s, Some i)
                      | None \<Rightarrow> createPeerConnection e (construct_ok oc) s) = (s1, pc)"
    by (cases "(case peerConnectionRef s of Some i \<Rightarrow> (s, Some i)
                      | None \<Rightarrow> createPeerConnection e (construct_ok oc) s)") blast
  have s1: "exclusive s1"
  proof (cases "peerConnectionRef s")
    case None
    with c have "s1 = fst (createPeerConnection e (construct_ok oc) s)" by simp
    then show ?thesis using assms by (simp add: exclusive_create)
  next
    case (Some i)
    with c assms show ?thesis by simp
  qed
  show ?thesis
    using s1 c
    by (auto simp add: on_offer_def Let_def exclusive_handleDisconnect split: option.split)
qed

lemma exclusive_ice:
  assumes "exclusive s"
  shows "exclusive (oniceconnectionstatechange p s)"
proof -
  have sched: "exclusive (schedule_reconnect e t) = exclusive t" for e t
    by (simp add: schedule_reconnect_def clearTimeout_def Let_def exclusive_def
        split: option.split)
  have hd: "exclusive (setConnectionState (\<lambda>prev. prev\<lparr>error := x\<rparr>) (handleDisconnect s))" for x
    using exclusive_handleDisconnect [of s] by (simp add: exclusive_def cs_simps)
  show ?thesis
    using assms
    by (simp add: oniceconnectionstatechange_def Let_def sched hd split: ice_state.split)
      (simp add: exclusive_def cs_simps)
qed

text \<open>Every event other than the arrival of a remote track and \<open>waiting\<close> keeps the two
  flags exclusive, whenever it comes.\<close>

lemma exclusive_other_events:
  assumes "exclusive s" "\<And>p rs. ev \<noteq> Track p (Some rs)" "\<And>k. ev \<noteq> Waiting k"
  shows "exclusive (step ev s)"
proof (cases ev)
  case (Track p tr)
  then have "tr = None"
    using assms(2) by (cases tr) auto
  then show ?thesis
    using assms(1) Track by (simp add: on_pc_def ontrack_def)
next
  case (Waiting k)
  then show ?thesis
    using assms(3) by blast
next
  case (Match k ok)
  then show ?thesis
    using assms(1) by (simp add: on_socket_def on_match_def exclusive_create)
      (simp add: exclusive_def cs_simps)
next
  case (Offer k peerId offer oc)
  then show ?thesis
    using assms(1) by (simp add: on_socket_def exclusive_on_offer)
next
  case (Answer k a ok)
  then show ?thesis
    using assms
    by (simp add: on_socket_def on_answer_def exclusive_handleDisconnect split: option.split)
next
  case (IceCandidateIn k c ok)
  then show ?thesis
    using assms(1) by (simp add: on_socket_def on_ice_candidate_def split: option.split)
next
  case (PartnerLeft k)
  then show ?thesis
    using assms(1) exclusive_handleDisconnect [of s]
    by (simp add: on_socket_def on_partner_left_def exclusive_def cs_simps)
next
  case (SocketConnect k)
  then show ?thesis
    using assms(1) by (simp add: on_socket_def on_connect_def exclusive_def cs_simps)
next
  case (SocketDisconnect k)
  then show ?thesis
    using assms(1) by (simp add: on_socket_def)
next
  case (ConnectError k msg)
  then show ?thesis
    using assms(1) by (simp add: on_socket_def on_connect_error_def exclusive_def cs_simps)
next
  case (StatsUpdate k st)
  then show ?thesis
    using assms(1) by (simp add: on_socket_def on_stats_update_def exclusive_def)
next
  case (NegotiationNeeded p)
  then show ?thesis
    using assms(1) by (simp add: on_pc_def onnegotiationneeded_def) (simp add: exclusive_def)
next
  case (NegotiationSettled p r)
  have "exclusive (s\<lparr>suspended := x\<rparr>)" for x
    using assms(1) by (simp add: exclusive_def)
  then have "exclusive (negotiation_resume p r' (s\<lparr>suspended := x\<rparr>))" for x r'
    by (simp add: negotiation_resume_def Let_def split: option.split)
      (simp add: exclusive_def cs_simps)
  then show ?thesis
    using assms(1) NegotiationSettled by (simp add: settle_negotiation_def)
next
  case (IceCandidateOut p c)
  then show ?thesis
    using assms(1) by (simp add: on_pc_def onicecandidate_def split: option.split)
next
  case (IceStateChange p st)
  then show ?thesis
    using assms(1) by (simp add: on_pc_def exclusive_ice)
next
  case (MediaSettled r)
  have "exclusive (s\<lparr>tracks := x, next_track := y\<rparr>)" for x y
    using assms(1) by (simp add: exclusive_def)
  then show ?thesis
    using assms(1) MediaSettled
    by (simp add: initializeMedia_def split: sum.split) (simp add: exclusive_def cs_simps)
next
  case ClickFindPartner
  then show ?thesis
    using assms(1) by (simp add: click_findPartner_def exclusive_findPartner)
next
  case ClickToggleAudio
  have "exclusive (s\<lparr>tracks := x\<rparr>)" for x
    using assms(1) by (simp add: exclusive_def)
  then show ?thesis
    using assms(1) ClickToggleAudio by (simp add: toggleAudio_def split: option.split)
next
  case ClickToggleVideo
  have "exclusive (s\<lparr>tracks := x\<rparr>)" for x
    using assms(1) by (simp add: exclusive_def)
  then show ?thesis
    using assms(1) ClickToggleVideo by (simp add: toggleVideo_def split: option.split)
next
  case (TimerFire t)
  have "exclusive (s\<lparr>timers := x\<rparr>)" for x
    using assms(1) by (simp add: exclusive_def)
  then show ?thesis
    using assms(1) TimerFire by (simp add: fire_timer_def exclusive_findPartner)
next
  case Disconnect
  then show ?thesis
    by (simp add: exclusive_handleDisconnect)
qed

text \<open>
  Claim C5 says that \<open>isConnected\<close> and \<open>isWaiting\<close> are never both true in a state
  reached from the initial state by any sequence of the component's events. This does
  not hold of the code. \<open>findPartner\<close> sets \<open>isWaiting\<close> together with \<open>isConnected\<close>
  false, the \<open>match\<close> handler clears \<open>isWaiting\<close> and \<open>handleDisconnect\<close> clears both,
  but \<open>pc.ontrack\<close> sets \<open>isConnected\<close> and leaves \<open>isWaiting\<close> as it is, and the
  \<open>waiting\<close> handler sets \<open>isWaiting\<close> and leaves \<open>isConnected\<close> as it is. The side
  that asks for a partner, is told to wait and is then reached by its partner's offer
  (\<open>responder_run\<close>) ends connected, with the partner's stream, and still waiting, so
  that its find-partner button no longer reacts; a \<open>waiting\<close> event that arrives
  after the remote track (\<open>late_waiting_run\<close>) gives both flags as well.
\<close>

theorem connected_and_waiting_reachable:
  "isConnected (connectionState (run responder_run mounted))
   \<and> isWaiting (connectionState (run responder_run mounted))
   \<and> remoteStream (streams (run responder_run mounted)) = Some 7
   \<and> peerConnectionRef (run responder_run mounted) = Some 0
   \<and> step ClickFindPartner (run responder_run mounted) = run responder_run mounted
   \<and> isConnected (connectionState (run late_waiting_run mounted))
   \<and> isWaiting (connectionState (run late_waiting_run mounted))"
proof -
  have "isConnected (connectionState (run responder_run mounted))
   \<and> isWaiting (connectionState (run responder_run mounted))
   \<and> remoteStream (streams (run responder_run mounted)) = Some 7
   \<and> peerConnectionRef (run responder_run mounted) = Some 0
   \<and> isConnected (connectionState (run late_waiting_run mounted))
   \<and> isWaiting (connectionState (run late_waiting_run mounted))"
    by (simp add: responder_run_def late_waiting_run_def all_ok_def state_defs on_offer_def
        offerCollision_def)
  then show ?thesis
    by (simp add: click_findPartner_def)
qed

end
